theory Spec2Isabelle
  imports Main
begin

section \<open>Text, dates and paths\<close>

text \<open>
  A Python \<open>str\<close> is a sequence of code points. The model writes it as a \<open>string\<close> and
  reads each \<open>char\<close> as the code point of the same number, so it covers text within
  U+0000 .. U+00FF and \<open>length\<close> counts code points, as \<open>len\<close> does.

  \<open>isalnum\<close> and \<open>isspace\<close> are \<open>str.isalnum\<close> and \<open>str.isspace\<close> on one character of
  that range: the ASCII digits and letters, and the letters and numeric characters of
  Latin-1 (such as U+00E9); the ASCII white space and separators, U+0085 and U+00A0.
\<close>

definition isalnum :: "char \<Rightarrow> bool" where
  "isalnum c =
     (let n = (of_char c :: nat) in
        (48 \<le> n \<and> n \<le> 57) \<or> (65 \<le> n \<and> n \<le> 90) \<or> (97 \<le> n \<and> n \<le> 122) \<or>
        n \<in> {170, 178, 179, 181, 185, 186, 188, 189, 190} \<or>
        (192 \<le> n \<and> n \<le> 214) \<or> (216 \<le> n \<and> n \<le> 246) \<or> 248 \<le> n)"

definition isspace :: "char \<Rightarrow> bool" where
  "isspace c =
     (let n = (of_char c :: nat) in
        (9 \<le> n \<and> n \<le> 13) \<or> (28 \<le> n \<and> n \<le> 32) \<or> n = 133 \<or> n = 160)"

text \<open>\<open>str.isalnum\<close> on a whole string: every character is alphanumeric and there is one.\<close>

definition str_isalnum :: "string \<Rightarrow> bool" where
  "str_isalnum s = (s \<noteq> [] \<and> list_all isalnum s)"

text \<open>\<open>s.rstrip()\<close>: trailing white space removed.\<close>

definition rstrip :: "string \<Rightarrow> string" where
  "rstrip s = rev (dropWhile isspace (rev s))"

text \<open>\<open>f.startswith(p)\<close>.\<close>

definition startswith :: "string \<Rightarrow> string \<Rightarrow> bool" where
  "startswith f p = (take (length p) f = p)"

text \<open>\<open>s.replace("Z", "+00:00")\<close>: every \<open>Z\<close> is replaced.\<close>

definition replace_Z :: "string \<Rightarrow> string" where
  "replace_Z s = concat (map (\<lambda>c. if c = CHR ''Z'' then ''+00:00'' else [c]) s)"

text \<open>\<open>str(n)\<close> and the format \<open>{n:02d}\<close> for a non-negative integer.\<close>

definition digit :: "nat \<Rightarrow> char" where
  "digit d = ''0123456789'' ! d"

fun str_nat :: "nat \<Rightarrow> string" where
  "str_nat n = (if n < 10 then [digit n] else str_nat (n div 10) @ [digit (n mod 10)])"

declare str_nat.simps [simp del]

definition fmt_02d :: "nat \<Rightarrow> string" where
  "fmt_02d n = (if n < 10 then CHR ''0'' # str_nat n else str_nat n)"

text \<open>
  \<open>os.path.join\<close> on a POSIX system: a component that starts with the separator
  replaces what came before it, and no separator is added after an empty path or after
  one that ends with the separator.
\<close>

definition join2 :: "string \<Rightarrow> string \<Rightarrow> string" where
  "join2 path b =
     (if startswith b ''/'' then b
      else if path = [] \<or> last path = CHR ''/'' then path @ b
      else path @ ''/'' @ b)"

definition os_path_join :: "string \<Rightarrow> string list \<Rightarrow> string" where
  "os_path_join a p = foldl join2 a p"

text \<open>The fields of a \<open>datetime\<close> that the program reads.\<close>

record datetime =
  year :: nat
  month :: nat
  day :: nat

section \<open>JSON values, recordings and the remote API\<close>

text \<open>
  What \<open>json.load\<close> and \<open>response.json()\<close> deliver; \<open>JNull\<close> is Python's \<open>None\<close>. Numbers
  are integers. An object holds the items of the dict, each key once.
\<close>

datatype json =
    JNull
  | JBool bool
  | JNum int
  | JStr string
  | JList "json list"
  | JObj "(string \<times> json) list"

text \<open>Python's truth value of such a value, as \<open>if x:\<close> tests it.\<close>

fun truthy :: "json \<Rightarrow> bool" where
  "truthy JNull = False"
| "truthy (JBool b) = b"
| "truthy (JNum n) = (n \<noteq> 0)"
| "truthy (JStr s) = (s \<noteq> [])"
| "truthy (JList xs) = (xs \<noteq> [])"
| "truthy (JObj kvs) = (kvs \<noteq> [])"

text \<open>
  A recording as the API delivers it: a dict. The value under \<open>"id"\<close> is a string when
  the key is there (\<open>rid\<close>, \<open>None\<close> when the dict has no \<open>"id"\<close>); the other keys hold any
  JSON value (\<open>attrs\<close>, read with \<open>dict.get\<close>).
\<close>

record recording =
  rid :: "string option"
  attrs :: "string \<rightharpoonup> json"

text \<open>\<open>d.get(key)\<close> and \<open>d.get(key, default)\<close>.\<close>

definition get_or_None :: "recording \<Rightarrow> string \<Rightarrow> json" where
  "get_or_None d k = (case attrs d k of None \<Rightarrow> JNull | Some v \<Rightarrow> v)"

definition get_default :: "recording \<Rightarrow> string \<Rightarrow> json \<Rightarrow> json" where
  "get_default d k dflt = (case attrs d k of None \<Rightarrow> dflt | Some v \<Rightarrow> v)"

text \<open>The listing response: \<open>response.get("recordings", [])\<close> and \<open>response.get("cursor")\<close>.\<close>

record response =
  resp_recordings :: "recording list"
  resp_cursor :: json

text \<open>
  Every exception the program can meet. \<open>HTTPError n\<close> is what \<open>raise_for_status\<close> raises
  for status \<open>n\<close> (404 for a recording that is gone), \<open>ConnectionError\<close> a failure of the
  transport.
\<close>

datatype error =
    KeyError
  | TypeError
  | AttributeError
  | ValueError
  | UnicodeEncodeError
  | OSError
  | HTTPError nat
  | ConnectionError

text \<open>
  \<open>x[key]\<close> for a string key: a dict gives the value or a \<open>KeyError\<close>; a list, a string,
  a number, a boolean or \<open>None\<close> raises a \<open>TypeError\<close>.
\<close>

definition subscript :: "json \<Rightarrow> string \<Rightarrow> error + json" where
  "subscript x k =
     (case x of
        JObj kvs \<Rightarrow> (case map_of kvs k of None \<Rightarrow> Inl KeyError | Some v \<Rightarrow> Inr v)
      | _ \<Rightarrow> Inl TypeError)"

text \<open>
  \<open>x + index\<close> for an integer \<open>index\<close>: defined on a number and on a boolean, which
  counts as 0 or 1; a \<open>TypeError\<close> (\<open>None\<close> here) on everything else.
\<close>

fun py_add :: "json \<Rightarrow> int \<Rightarrow> int option" where
  "py_add (JNum n) i = Some (n + i)"
| "py_add (JBool b) i = Some ((if b then 1 else 0) + i)"
| "py_add x i = None"

text \<open>
  What the program reads from outside itself:
  \<^item> \<open>api_token\<close>: the environment variable \<open>GRAIN_API_TOKEN\<close>;
  \<^item> \<open>list_page\<close>: the listing endpoint, from the value sent as the \<open>cursor\<close> query
    parameter (\<open>JNull\<close> when the request carries none) to the parsed response or the
    exception raised;
  \<^item> \<open>fetch\<close>: the detail endpoint, by recording id;
  \<^item> \<open>fromisoformat\<close>: \<open>datetime.fromisoformat\<close> of the running interpreter (\<open>None\<close> when it
    raises); the accepted grammar depends on the Python version;
  \<^item> \<open>now_iso\<close>: \<open>datetime.now().isoformat()\<close>;
  \<^item> \<open>answer_yes\<close>: whether the line typed at the resume prompt, lowered and stripped,
    is \<open>y\<close>;
  \<^item> \<open>denied\<close>: the places, by their normal path, at which the operating system refuses
    to create a directory or to open a file for writing;
  \<^item> \<open>dump_error\<close>: the exception of \<open>json.dump\<close>, if it raises while it writes this value
    to the file opened at this place: a failing device, or text that UTF-8 does not
    encode.
\<close>

record env =
  api_token :: "string option"
  list_page :: "json \<Rightarrow> error + response"
  fetch :: "string \<Rightarrow> error + recording"
  fromisoformat :: "string \<Rightarrow> datetime option"
  now_iso :: string
  answer_yes :: bool
  denied :: "string \<Rightarrow> bool"
  dump_error :: "string \<Rightarrow> json \<Rightarrow> error option"

section \<open>The file system and the console\<close>

text \<open>
  The content of a file: text that \<open>json.load\<close> rejects (what an interrupted \<open>json.dump\<close>
  leaves behind, for one), or text that it parses to a value.
\<close>

datatype file_text = Truncated | Json json

text \<open>What the program prints, one constructor for each \<open>print\<close> of the source.\<close>

datatype event =
    FetchingAll
  | FetchingPage int
  | ProcessingPage nat
  | Processing int json
  | AlreadyDownloaded string
  | SavedFile string
  | DateWarning json
  | ErrorMsg error
  | ErrorLoadingCursor
  | SavedCursorState int
  | FoundSavedState json
  | AlreadyProcessed json
  | Completed int
  | RemovedCursorState
  | ErrorDuringProcessing error

text \<open>
  The state the program changes: the directories with the names of their entries, the
  files with their content, and the lines printed. Directories and files are kept
  under their normal path: the names from the working directory down, joined by
  \<open>/\<close>, after \<open>..\<close> for each step above the working directory, or after \<open>/\<close> for a path
  from the root. The working directory, what lies above it and the root exist
  without being kept; their listings are not modelled, and there are no symbolic
  links. A path from the root and a path from the working directory name different
  places.
\<close>

record world =
  dirs :: "string \<rightharpoonup> string list"
  files :: "string \<rightharpoonup> file_text"
  stdout :: "event list"

definition print :: "event \<Rightarrow> world \<Rightarrow> world" where
  "print e w = w\<lparr>stdout := stdout w @ [e]\<rparr>"

text \<open>The checkpoint file, \<open>.cursor_state.json\<close> in the working directory.\<close>

definition cursor_file :: "world \<Rightarrow> file_text option" where
  "cursor_file w = files w ''.cursor_state.json''"

subsection \<open>Paths\<close>

text \<open>\<open>p.split("/")\<close>: the components of a path, empty ones included.\<close>

fun split_slash :: "string \<Rightarrow> string list" where
  "split_slash [] = [[]]"
| "split_slash (c # cs) =
     (if c = CHR ''/'' then [] # split_slash cs
      else (case split_slash cs of [] \<Rightarrow> [[c]] | x # xs \<Rightarrow> (c # x) # xs))"

text \<open>
  A place in the file system: whether it is counted from the root, and the names that
  lead to it. A place counted from the working directory may begin with \<open>..\<close> names,
  and only with them it lies above the working directory.
\<close>

type_synonym place = "bool \<times> string list"

definition above :: "string list \<Rightarrow> bool" where
  "above names = list_all (\<lambda>n. n = ''..'') names"

text \<open>
  One component further: an empty component and \<open>.\<close> stay, \<open>..\<close> goes to the parent (the
  root is its own parent), a name goes down.
\<close>

definition step :: "place \<Rightarrow> string \<Rightarrow> place" where
  "step l c =
     (if c = [] \<or> c = ''.'' then l
      else if c = ''..''
      then (if above (snd l)
            then (if fst l then l else (False, snd l @ [''..'']))
            else (fst l, butlast (snd l)))
      else (fst l, snd l @ [c]))"

fun join_slash :: "string list \<Rightarrow> string" where
  "join_slash [] = []"
| "join_slash [x] = x"
| "join_slash (x # y # ys) = x @ ''/'' @ join_slash (y # ys)"

definition key :: "place \<Rightarrow> string" where
  "key l = (if fst l then CHR ''/'' # join_slash (snd l) else join_slash (snd l))"

definition is_dir :: "world \<Rightarrow> place \<Rightarrow> bool" where
  "is_dir w l = (\<not> (\<not> above (snd l) \<and> dirs w (key l) = None))"

text \<open>
  The place a path names, as the system looks it up: component by component, and
  every place that a further component follows must be a directory. \<open>None\<close> when the
  lookup fails.
\<close>

fun walk :: "world \<Rightarrow> place \<Rightarrow> string list \<Rightarrow> place option" where
  "walk w l [] = Some l"
| "walk w l (c # cs) = (if is_dir w l then walk w (step l c) cs else None)"

definition resolve :: "world \<Rightarrow> string \<Rightarrow> place option" where
  "resolve w p = (if p = [] then None else walk w (startswith p ''/'', []) (split_slash p))"

text \<open>\<open>os.path.exists\<close> and \<open>os.listdir\<close> (\<open>None\<close> when it raises).\<close>

definition path_exists :: "world \<Rightarrow> string \<Rightarrow> bool" where
  "path_exists w p =
     (case resolve w p of
        None \<Rightarrow> False
      | Some l \<Rightarrow> \<not> (\<not> is_dir w l \<and> files w (key l) = None))"

definition listdir :: "world \<Rightarrow> string \<Rightarrow> string list option" where
  "listdir w p = (case resolve w p of None \<Rightarrow> None | Some l \<Rightarrow> dirs w (key l))"

text \<open>A new name in the listing of a directory that is kept, and a name taken out.\<close>

definition add_entry :: "(string \<rightharpoonup> string list) \<Rightarrow> string \<Rightarrow> string \<Rightarrow> (string \<rightharpoonup> string list)" where
  "add_entry ds d n =
     (case ds d of
        None \<Rightarrow> ds
      | Some names \<Rightarrow> if n \<in> set names then ds else ds(d \<mapsto> names @ [n]))"

definition del_entry :: "(string \<rightharpoonup> string list) \<Rightarrow> string \<Rightarrow> string \<Rightarrow> (string \<rightharpoonup> string list)" where
  "del_entry ds d n =
     (case ds d of
        None \<Rightarrow> ds
      | Some names \<Rightarrow> ds(d \<mapsto> filter (\<lambda>m. m \<noteq> n) names))"

text \<open>The directory a place lies in, and its name there.\<close>

definition parent :: "place \<Rightarrow> place" where
  "parent l = (fst l, butlast (snd l))"

definition name_of :: "place \<Rightarrow> string" where
  "name_of l = last (snd l)"

text \<open>
  \<open>os.makedirs(p, exist_ok=True)\<close>: every prefix of \<open>p\<close> that ends before a separator, and
  \<open>p\<close> itself, in order, is made a directory unless it is one already. It raises when
  \<open>p\<close> is empty, when a lookup fails, when one of them is a file, or when the system
  refuses the creation. For a path that ends with a separator the list names the last
  place twice, with and without the separator; the second lookup finds the directory
  that the first has made.
\<close>

definition path_prefixes :: "string \<Rightarrow> string list" where
  "path_prefixes p =
     filter (\<lambda>q. q \<noteq> []) (map (\<lambda>i. take i p) (filter (\<lambda>i. p ! i = CHR ''/'') [0..<length p])) @ [p]"

definition mkdir_at :: "place \<Rightarrow> world \<Rightarrow> world" where
  "mkdir_at l w =
     w\<lparr>dirs := add_entry ((dirs w)(key l \<mapsto> [])) (key (parent l)) (name_of l)\<rparr>"

fun mkdirs :: "env \<Rightarrow> string list \<Rightarrow> world \<Rightarrow> (error + unit) \<times> world" where
  "mkdirs en [] w = (Inr (), w)"
| "mkdirs en (d # ds) w =
     (case resolve w d of
        None \<Rightarrow> (Inl OSError, w)
      | Some l \<Rightarrow>
          if is_dir w l then mkdirs en ds w
          else if files w (key l) = None \<and> \<not> denied en (key l)
          then mkdirs en ds (mkdir_at l w)
          else (Inl OSError, w))"

definition makedirs :: "env \<Rightarrow> string \<Rightarrow> world \<Rightarrow> (error + unit) \<times> world" where
  "makedirs en p w = (if p = [] then (Inl OSError, w) else mkdirs en (path_prefixes p) w)"

text \<open>
  \<open>open(path, "w")\<close> succeeds when the last component is a name, the lookup reaches a
  place that is no directory, and the system does not refuse.
\<close>

definition can_open :: "env \<Rightarrow> world \<Rightarrow> string \<Rightarrow> bool" where
  "can_open en w path =
     (last (split_slash path) \<notin> {[], ''.'', ''..''} \<and>
      (case resolve w path of
         None \<Rightarrow> False
       | Some l \<Rightarrow> \<not> is_dir w l \<and> \<not> denied en (key l)))"

text \<open>
  \<open>with open(path, "w") as f: json.dump(v, f)\<close>. The open creates or empties the file;
  when \<open>json.dump\<close> raises after it, the file stays, cut short.
\<close>

definition write_json :: "env \<Rightarrow> string \<Rightarrow> json \<Rightarrow> world \<Rightarrow> (error + unit) \<times> world" where
  "write_json en path v w =
     (if can_open en w path then
        (case resolve w path of
           None \<Rightarrow> (Inl OSError, w)
         | Some l \<Rightarrow>
             (case dump_error en (key l) v of
                Some e \<Rightarrow>
                  (Inl e, w\<lparr>files := (files w)(key l \<mapsto> Truncated),
                            dirs := add_entry (dirs w) (key (parent l)) (name_of l)\<rparr>)
              | None \<Rightarrow>
                  (Inr (), w\<lparr>files := (files w)(key l \<mapsto> Json v),
                            dirs := add_entry (dirs w) (key (parent l)) (name_of l)\<rparr>)))
      else (Inl OSError, w))"

text \<open>
  \<open>with open(path, "r") as f: json.load(f)\<close>: it raises when the path names no file, and
  when the text does not parse.
\<close>

definition read_json :: "world \<Rightarrow> string \<Rightarrow> error + json" where
  "read_json w path =
     (case resolve w path of
        None \<Rightarrow> Inl OSError
      | Some l \<Rightarrow>
          (case files w (key l) of
             None \<Rightarrow> Inl OSError
           | Some Truncated \<Rightarrow> Inl ValueError
           | Some (Json v) \<Rightarrow> Inr v))"

text \<open>\<open>os.remove(path)\<close>: it raises when the path names no file.\<close>

definition os_remove :: "string \<Rightarrow> world \<Rightarrow> (error + unit) \<times> world" where
  "os_remove path w =
     (case resolve w path of
        None \<Rightarrow> (Inl OSError, w)
      | Some l \<Rightarrow>
          if files w (key l) = None then (Inl OSError, w)
          else (Inr (), w\<lparr>files := (files w)(key l := None),
                         dirs := del_entry (dirs w) (key (parent l)) (name_of l)\<rparr>))"

section \<open>The API client\<close>

text \<open>
  \<open>GrainAPIClient.get_recording\<close> and \<open>list_recordings\<close>: one request each, the
  exception of \<open>raise_for_status\<close> passed on. \<open>list_recordings\<close> sends the cursor only
  when it is true, so \<open>None\<close> and the empty string ask for the same page.
\<close>

definition get_recording :: "env \<Rightarrow> string \<Rightarrow> error + recording" where
  "get_recording en recording_id = fetch en recording_id"

definition list_recordings :: "env \<Rightarrow> json \<Rightarrow> error + response" where
  "list_recordings en c = list_page en (if truthy c then c else JNull)"

section \<open>The checkpoint store\<close>

text \<open>
  \<open>save_cursor_state\<close> writes the cursor, the count and the time to
  \<open>.cursor_state.json\<close> and prints the count; the exception of the open or of
  \<open>json.dump\<close> is passed on.
\<close>

definition save_cursor_state :: "env \<Rightarrow> json \<Rightarrow> int \<Rightarrow> world \<Rightarrow> (error + unit) \<times> world" where
  "save_cursor_state en c count w =
     (case write_json en ''.cursor_state.json''
             (JObj [(''cursor'', c), (''processed_count'', JNum count),
                    (''timestamp'', JStr (now_iso en))]) w of
        (Inl e, w') \<Rightarrow> (Inl e, w')
      | (Inr _, w') \<Rightarrow> (Inr (), print (SavedCursorState count) w'))"

text \<open>
  \<open>load_cursor_state\<close>: \<open>None\<close> when the path does not exist; otherwise whatever
  \<open>json.load\<close> returns, and when opening or loading raises, the exception is caught, a
  line is printed and \<open>None\<close> is returned. The value is not checked.
\<close>

definition load_cursor_state :: "world \<Rightarrow> json \<times> world" where
  "load_cursor_state w =
     (if path_exists w ''.cursor_state.json'' then
        (case read_json w ''.cursor_state.json'' of
           Inr v \<Rightarrow> (v, w)
         | Inl e \<Rightarrow> (JNull, print ErrorLoadingCursor w))
      else (JNull, w))"

section \<open>The artifact writer\<close>

text \<open>
  The title cleaned for the file name: the characters \<open>c\<close> with
  \<open>c.isalnum() or c in (" ", "-", "_")\<close>, joined, right-stripped, then cut to 50.
\<close>

definition keep_char :: "char \<Rightarrow> bool" where
  "keep_char c = (isalnum c \<or> c \<in> {CHR '' '', CHR ''-'', CHR ''_''})"

definition sanitize :: "string \<Rightarrow> string" where
  "sanitize title = take 50 (rstrip (filter keep_char title))"

text \<open>
  The same expression on whatever JSON value sits under \<open>"title"\<close>: a list is iterated
  by its items and an object by its keys, an item that is no string has no \<open>isalnum\<close>,
  and \<open>null\<close>, a boolean or a number cannot be iterated.
\<close>

fun kept_items :: "json list \<Rightarrow> error + string" where
  "kept_items [] = Inr []"
| "kept_items (JStr s # cs) =
     (case kept_items cs of
        Inl e \<Rightarrow> Inl e
      | Inr r \<Rightarrow> Inr ((if str_isalnum s \<or> s \<in> {'' '', ''-'', ''_''} then s else []) @ r))"
| "kept_items (c # cs) = Inl AttributeError"

fun safe_title :: "json \<Rightarrow> error + string" where
  "safe_title (JStr s) = Inr (sanitize s)"
| "safe_title (JList xs) =
     (case kept_items xs of Inl e \<Rightarrow> Inl e | Inr r \<Rightarrow> Inr (take 50 (rstrip r)))"
| "safe_title (JObj kvs) =
     (case kept_items (map (\<lambda>kv. JStr (fst kv)) kvs) of
        Inl e \<Rightarrow> Inl e
      | Inr r \<Rightarrow> Inr (take 50 (rstrip r)))"
| "safe_title v = Inl TypeError"

text \<open>
  \<open>datetime.fromisoformat(x.replace("Z", "+00:00"))\<close>, \<open>None\<close> when it raises (a value that
  is no string has no \<open>replace\<close>), and the year/month/day directory under a root.
\<close>

definition parse_start :: "env \<Rightarrow> json \<Rightarrow> datetime option" where
  "parse_start en v = (case v of JStr s \<Rightarrow> fromisoformat en (replace_Z s) | _ \<Rightarrow> None)"

definition date_dir :: "string \<Rightarrow> datetime \<Rightarrow> string" where
  "date_dir root dt = os_path_join root [str_nat (year dt), fmt_02d (month dt), fmt_02d (day dt)]"

text \<open>Lines 157 to 169 of \<open>save_recording_to_json\<close>: the directory, and the warning printed.\<close>

definition date_path_of :: "env \<Rightarrow> recording \<Rightarrow> string \<Rightarrow> world \<Rightarrow> string \<times> world" where
  "date_path_of en recording_data output_dir w =
     (let start_datetime_str = get_or_None recording_data ''start_datetime'' in
        if truthy start_datetime_str then
          (case parse_start en start_datetime_str of
             Some dt \<Rightarrow> (date_dir output_dir dt, w)
           | None \<Rightarrow> (output_dir, print (DateWarning start_datetime_str) w))
        else (output_dir, w))"

text \<open>The reduced projection that is written.\<close>

definition output_data :: "string \<Rightarrow> recording \<Rightarrow> json" where
  "output_data recording_id recording_data =
     JObj [(''id'', JStr recording_id),
           (''title'', get_or_None recording_data ''title''),
           (''url'', get_or_None recording_data ''url''),
           (''source'', get_or_None recording_data ''source''),
           (''start_datetime'', get_or_None recording_data ''start_datetime''),
           (''participants'', get_default recording_data ''participants'' (JList [])),
           (''transcript'', get_default recording_data ''transcript_json'' (JObj []))]"

text \<open>
  \<open>save_recording_to_json\<close>. The directory is created before the id is read. The line
  printed at the end shows the path relative to the root; the model prints the path.
\<close>

definition save_recording_to_json ::
  "env \<Rightarrow> recording \<Rightarrow> string \<Rightarrow> world \<Rightarrow> (error + string) \<times> world" where
  "save_recording_to_json en recording_data output_dir w =
     (case date_path_of en recording_data output_dir w of (date_path, w1) \<Rightarrow>
      (case makedirs en date_path w1 of
         (Inl e, w2) \<Rightarrow> (Inl e, w2)
       | (Inr _, w2) \<Rightarrow>
           (case rid recording_data of
              None \<Rightarrow> (Inl KeyError, w2)
            | Some recording_id \<Rightarrow>
                (case safe_title (get_default recording_data ''title'' (JStr ''Untitled'')) of
                   Inl e \<Rightarrow> (Inl e, w2)
                 | Inr st \<Rightarrow>
                     (let filename = recording_id @ ''_'' @ st @ ''.json'';
                          filepath = os_path_join date_path [filename]
                      in case write_json en filepath (output_data recording_id recording_data) w2 of
                           (Inl e, w3) \<Rightarrow> (Inl e, w3)
                         | (Inr _, w3) \<Rightarrow> (Inr filepath, print (SavedFile filepath) w3))))))"

section \<open>The per-record handler\<close>

text \<open>
  Lines 277 to 307 of \<open>process_recording\<close>: the look for a file already downloaded. It
  gives the path printed when one is found. The look is made only when
  \<open>start_datetime\<close> is true and \<open>recordings\<close> exists; an exception inside it (the date
  does not parse, the directory cannot be listed) is passed over.
\<close>

definition existing_download :: "env \<Rightarrow> world \<Rightarrow> string \<Rightarrow> json \<Rightarrow> string option" where
  "existing_download en w recording_id start_datetime_str =
     (if truthy start_datetime_str \<and> path_exists w ''recordings'' then
        (case parse_start en start_datetime_str of
           None \<Rightarrow> None
         | Some dt \<Rightarrow>
             (let date_path = date_dir ''recordings'' dt in
                if path_exists w date_path then
                  (case listdir w date_path of
                     None \<Rightarrow> None
                   | Some names \<Rightarrow>
                       (case filter (\<lambda>f. startswith f recording_id) names of
                          [] \<Rightarrow> None
                        | f # _ \<Rightarrow>
                            Some (os_path_join (str_nat (year dt))
                                    [fmt_02d (month dt), fmt_02d (day dt), f])))
                else None))
      else None)"

text \<open>The body of the \<open>try\<close> of \<open>process_recording\<close> (lines 275 to 314).\<close>

definition process_recording_try :: "env \<Rightarrow> recording \<Rightarrow> world \<Rightarrow> (error + unit) \<times> world" where
  "process_recording_try en recording w =
     (case rid recording of
        None \<Rightarrow> (Inl KeyError, w)
      | Some recording_id \<Rightarrow>
          (case existing_download en w recording_id (get_or_None recording ''start_datetime'') of
             Some relative_path \<Rightarrow> (Inr (), print (AlreadyDownloaded relative_path) w)
           | None \<Rightarrow>
               (case get_recording en recording_id of
                  Inl e \<Rightarrow> (Inl e, w)
                | Inr recording_data \<Rightarrow>
                    (case save_recording_to_json en recording_data ''recordings'' w of
                       (Inl e, w') \<Rightarrow> (Inl e, w')
                     | (Inr _, w') \<Rightarrow> (Inr (), w')))))"

text \<open>
  \<open>process_recording\<close>, the closure of \<open>main\<close> over the client and \<open>starting_count\<close>.
  The index is computed and its line printed before the \<open>try\<close>, so a \<open>starting_count\<close>
  that cannot be added to raises out of the handler; then the \<open>try\<close> with
  \<open>except Exception\<close>, which prints the error and returns.
\<close>

definition process_recording ::
  "env \<Rightarrow> json \<Rightarrow> recording \<Rightarrow> int \<Rightarrow> world \<Rightarrow> (error + unit) \<times> world" where
  "process_recording en starting_count recording index w =
     (case py_add starting_count index of
        None \<Rightarrow> (Inl TypeError, w)
      | Some actual_index \<Rightarrow>
          (let w1 = print (Processing actual_index
                             (get_default recording ''title'' (JStr ''Untitled''))) w
           in case process_recording_try en recording w1 of
                (Inl e, w2) \<Rightarrow> (Inr (), print (ErrorMsg e) w2)
              | (Inr _, w2) \<Rightarrow> (Inr (), w2)))"

section \<open>The sync engine\<close>

text \<open>How one pass through the body of \<open>while True\<close> ends.\<close>

datatype 'a flow = Break 'a | Continue 'a

text \<open>The \<open>for\<close> loop over a page (lines 104 to 106), with the running total.\<close>

fun for_recordings ::
  "(recording \<Rightarrow> int \<Rightarrow> world \<Rightarrow> (error + unit) \<times> world) \<Rightarrow> recording list \<Rightarrow> int \<Rightarrow> world
     \<Rightarrow> (error + int) \<times> world" where
  "for_recordings callback [] total_processed w = (Inr total_processed, w)"
| "for_recordings callback (recording # rest) total_processed w =
     (case callback recording (total_processed + 1) w of
        (Inl e, w') \<Rightarrow> (Inl e, w')
      | (Inr _, w') \<Rightarrow> for_recordings callback rest (total_processed + 1) w')"

text \<open>
  The body of \<open>while True\<close> (lines 95 to 120) on the loop variables \<open>cursor\<close>,
  \<open>total_processed\<close> and \<open>page_num\<close>. Its last statement is the \<open>break\<close> of line 120.
  The two \<open>time.sleep\<close> calls of the program change nothing and are left out.
\<close>

definition loop_body ::
  "env \<Rightarrow> (recording \<Rightarrow> int \<Rightarrow> world \<Rightarrow> (error + unit) \<times> world)
     \<Rightarrow> json \<times> int \<times> int \<Rightarrow> world
     \<Rightarrow> (error + (json \<times> int \<times> int) flow) \<times> world" where
  "loop_body en callback st w =
     (case st of (cur, total_processed, page_num) \<Rightarrow>
      (let w1 = print (FetchingPage page_num) w in
       case list_recordings en cur of
         Inl e \<Rightarrow> (Inl e, w1)
       | Inr resp \<Rightarrow>
           (let recordings = resp_recordings resp in
            if recordings = [] then (Inr (Break (cur, total_processed, page_num)), w1)
            else
              (case for_recordings callback recordings total_processed
                      (print (ProcessingPage (length recordings)) w1) of
                 (Inl e, w2) \<Rightarrow> (Inl e, w2)
               | (Inr total', w2) \<Rightarrow>
                   (let c = resp_cursor resp in
                    if truthy c then
                      (case save_cursor_state en c total' w2 of
                         (Inl e, w3) \<Rightarrow> (Inl e, w3)
                       | (Inr _, w3) \<Rightarrow> (Inr (Break (c, total', page_num + 1)), w3))
                    else (Inr (Break (c, total', page_num)), w2))))))"

text \<open>
  \<open>while True\<close>: the body is run again only when it ends without \<open>break\<close>, \<open>return\<close> or
  an exception. No path through the body does, so the loop ends after one pass.
\<close>

function while_True ::
  "env \<Rightarrow> (recording \<Rightarrow> int \<Rightarrow> world \<Rightarrow> (error + unit) \<times> world)
     \<Rightarrow> json \<times> int \<times> int \<Rightarrow> world
     \<Rightarrow> (error + json \<times> int \<times> int) \<times> world" where
  "while_True en callback st w =
     (case loop_body en callback st w of
        (Inl e, w') \<Rightarrow> (Inl e, w')
      | (Inr (Break st'), w') \<Rightarrow> (Inr st', w')
      | (Inr (Continue st'), w') \<Rightarrow> while_True en callback st' w')"
  by pat_completeness auto
termination
  by (relation "{}")
     (auto simp: loop_body_def Let_def split: sum.splits prod.splits if_splits)

declare while_True.simps [simp del]

text \<open>\<open>process_all_recordings\<close>: the loop from \<open>resume_cursor\<close>, total 0, page 1.\<close>

definition process_all_recordings ::
  "env \<Rightarrow> (recording \<Rightarrow> int \<Rightarrow> world \<Rightarrow> (error + unit) \<times> world) \<Rightarrow> json \<Rightarrow> world
     \<Rightarrow> (error + int) \<times> world" where
  "process_all_recordings en callback resume_cursor w =
     (case while_True en callback (resume_cursor, 0, 1) w of
        (Inl e, w') \<Rightarrow> (Inl e, w')
      | (Inr (cur, total_processed, page_num), w') \<Rightarrow> (Inr total_processed, w'))"

section \<open>The main function\<close>

text \<open>
  \<open>if os.path.exists(".cursor_state.json"): os.remove(".cursor_state.json")\<close>; the
  result tells whether a file was removed.
\<close>

definition remove_cursor_state :: "world \<Rightarrow> (error + bool) \<times> world" where
  "remove_cursor_state w =
     (if path_exists w ''.cursor_state.json'' then
        (case os_remove ''.cursor_state.json'' w of
           (Inl e, w') \<Rightarrow> (Inl e, w')
         | (Inr _, w') \<Rightarrow> (Inr True, w'))
      else (Inr False, w))"

text \<open>
  The \<open>try\<close> of \<open>main\<close> (lines 319 to 333): on return the total is printed and the
  checkpoint file removed if there is one; an exception is printed and raised again.
\<close>

definition main_try :: "env \<Rightarrow> json \<Rightarrow> json \<Rightarrow> world \<Rightarrow> (error + unit) \<times> world" where
  "main_try en starting_count resume_cursor w =
     (case process_all_recordings en (process_recording en starting_count) resume_cursor w of
        (Inr total_processed, w1) \<Rightarrow>
          (case remove_cursor_state (print (Completed total_processed) w1) of
             (Inl e, w2) \<Rightarrow> (Inl e, print (ErrorDuringProcessing e) w2)
           | (Inr removed, w2) \<Rightarrow>
               (Inr (), if removed then print RemovedCursorState w2 else w2))
      | (Inl e, w1) \<Rightarrow> (Inl e, print (ErrorDuringProcessing e) w1))"

text \<open>
  Lines 250 to 265 of \<open>main\<close>: the saved checkpoint and the answer to the resume prompt
  give the cursor and the count to start from. The loaded value is used as it is:
  its \<open>timestamp\<close> and \<open>processed_count\<close> are printed, and its \<open>cursor\<close> and
  \<open>processed_count\<close> are taken on resume, each by subscript and outside every \<open>try\<close>.
\<close>

definition resume_state :: "env \<Rightarrow> world \<Rightarrow> (error + json \<times> json) \<times> world" where
  "resume_state en w =
     (case load_cursor_state w of (cursor_state, w1) \<Rightarrow>
        if truthy cursor_state then
          (case subscript cursor_state ''timestamp'' of
             Inl e \<Rightarrow> (Inl e, w1)
           | Inr ts \<Rightarrow>
               (let w2 = print (FoundSavedState ts) w1 in
                case subscript cursor_state ''processed_count'' of
                  Inl e \<Rightarrow> (Inl e, w2)
                | Inr pc \<Rightarrow>
                    (let w3 = print (AlreadyProcessed pc) w2 in
                     if answer_yes en then
                       (case subscript cursor_state ''cursor'' of
                          Inl e \<Rightarrow> (Inl e, w3)
                        | Inr c \<Rightarrow> (Inr (c, pc), w3))
                     else
                       (case remove_cursor_state w3 of
                          (Inl e, w4) \<Rightarrow> (Inl e, w4)
                        | (Inr _, w4) \<Rightarrow> (Inr (JNull, JNum 0), w4)))))
        else (Inr (JNull, JNum 0), w1))"

text \<open>
  \<open>main\<close> with \<open>test_mode = False\<close>, as the source fixes it: the token, the state to
  resume from, then the run.
\<close>

definition main :: "env \<Rightarrow> world \<Rightarrow> (error + unit) \<times> world" where
  "main en w =
     (if api_token en = None \<or> api_token en = Some [] then (Inl ValueError, w)
      else
        (case resume_state en (print FetchingAll w) of
           (Inl e, w1) \<Rightarrow> (Inl e, w1)
         | (Inr (resume_cursor, starting_count), w1) \<Rightarrow>
             main_try en starting_count resume_cursor w1))"

section \<open>A source with three pages, and other concrete inputs\<close>

text \<open>
  An interpreter that parses the one date of the examples, and a recording with that
  date.
\<close>

definition parse_fixture :: "string \<Rightarrow> datetime option" where
  "parse_fixture s =
     (if s = ''2024-03-05T10:00:00+00:00'' then Some \<lparr>year = 2024, month = 3, day = 5\<rparr>
      else None)"

definition rec_of :: "string \<Rightarrow> string \<Rightarrow> recording" where
  "rec_of i t =
     \<lparr>rid = Some i,
      attrs = [''title'' \<mapsto> JStr t, ''start_datetime'' \<mapsto> JStr ''2024-03-05T10:00:00Z'']\<rparr>"

text \<open>
  A workspace of three recordings listed on three pages: \<open>r1\<close> on the first, \<open>r2\<close> behind
  cursor \<open>c1\<close>, \<open>r3\<close> behind cursor \<open>c2\<close>. Nothing is refused and every write goes
  through.
\<close>

definition three_pages :: env where
  "three_pages =
     \<lparr>api_token = Some ''token'',
      list_page =
        (\<lambda>c. if c = JNull
             then Inr \<lparr>resp_recordings = [rec_of ''r1'' ''Standup''], resp_cursor = JStr ''c1''\<rparr>
             else if c = JStr ''c1''
             then Inr \<lparr>resp_recordings = [rec_of ''r2'' ''Retro''], resp_cursor = JStr ''c2''\<rparr>
             else if c = JStr ''c2''
             then Inr \<lparr>resp_recordings = [rec_of ''r3'' ''Demo''], resp_cursor = JNull\<rparr>
             else Inr \<lparr>resp_recordings = [], resp_cursor = JNull\<rparr>),
      fetch =
        (\<lambda>i. if i = ''r1'' then Inr (rec_of ''r1'' ''Standup'')
             else if i = ''r2'' then Inr (rec_of ''r2'' ''Retro'')
             else if i = ''r3'' then Inr (rec_of ''r3'' ''Demo'')
             else Inl (HTTPError 404)),
      fromisoformat = parse_fixture,
      now_iso = ''2026-01-01T00:00:00'',
      answer_yes = True,
      denied = (\<lambda>p. False),
      dump_error = (\<lambda>p v. None)\<rparr>"

text \<open>A fresh working directory, and one that holds a checkpoint of 100 recordings.\<close>

definition empty_world :: world where
  "empty_world = \<lparr>dirs = Map.empty, files = Map.empty, stdout = []\<rparr>"

definition saved_world :: world where
  "saved_world =
     empty_world
       \<lparr>files :=
          [''.cursor_state.json'' \<mapsto>
             Json (JObj [(''cursor'', JStr ''c1''), (''processed_count'', JNum 100),
                         (''timestamp'', JStr ''2025-12-31T00:00:00'')])]\<rparr>"

text \<open>
  A workspace of one page with \<open>r1\<close> and \<open>r2\<close>, where the detail request for \<open>r1\<close> fails
  in the transport; a workspace whose listing fails in the transport; and the
  three-page workspace on a file system that refuses every creation.
\<close>

definition flaky :: env where
  "flaky =
     three_pages
       \<lparr>list_page :=
          (\<lambda>c. Inr \<lparr>resp_recordings = [rec_of ''r1'' ''Standup'', rec_of ''r2'' ''Retro''],
                     resp_cursor = JNull\<rparr>),
        fetch := (\<lambda>i. if i = ''r1'' then Inl ConnectionError else fetch three_pages i)\<rparr>"

definition offline :: env where
  "offline = three_pages\<lparr>list_page := (\<lambda>c. Inl ConnectionError)\<rparr>"

definition read_only :: env where
  "read_only = three_pages\<lparr>denied := (\<lambda>p. True)\<rparr>"

text \<open>
  An output tree that holds the file of \<open>r1\<close> directly under the root, with a listing
  entry of \<open>r1\<close> that carries no date; and an output tree that holds the file of a
  recording \<open>r10\<close> in the directory of 5 March 2024.
\<close>

definition world_flat :: world where
  "world_flat =
     empty_world
       \<lparr>dirs := [''recordings'' \<mapsto> [''r1_Standup.json'']],
        files := [''recordings/r1_Standup.json'' \<mapsto> Json (JObj [])]\<rparr>"

definition rec_undated :: recording where
  "rec_undated = \<lparr>rid = Some ''r1'', attrs = [''title'' \<mapsto> JStr ''Standup'']\<rparr>"

text \<open>A source whose recording \<open>r1\<close> carries no date, in the listing and in the detail.\<close>

definition undated_source :: env where
  "undated_source = three_pages\<lparr>fetch := (\<lambda>i. Inr rec_undated)\<rparr>"

definition world_dated :: world where
  "world_dated =
     empty_world
       \<lparr>dirs := [''recordings'' \<mapsto> [''2024''],
                 ''recordings/2024'' \<mapsto> [''03''],
                 ''recordings/2024/03'' \<mapsto> [''05''],
                 ''recordings/2024/03/05'' \<mapsto> [''r10_Retro.json'']],
        files := [''recordings/2024/03/05/r10_Retro.json'' \<mapsto> Json (JObj [])]\<rparr>"

text \<open>
  A working directory whose checkpoint file does not parse, and one whose checkpoint
  file parses to an object that has a cursor and nothing else.
\<close>

definition corrupt_world :: world where
  "corrupt_world = empty_world\<lparr>files := [''.cursor_state.json'' \<mapsto> Truncated]\<rparr>"

definition incomplete_world :: world where
  "incomplete_world =
     empty_world\<lparr>files := [''.cursor_state.json'' \<mapsto> Json (JObj [(''cursor'', JStr ''c1'')])]\<rparr>"

text \<open>A working directory whose checkpoint file holds the JSON list \<open>[1]\<close>.\<close>

definition listed_world :: world where
  "listed_world = empty_world\<lparr>files := [''.cursor_state.json'' \<mapsto> Json (JList [JNum 1])]\<rparr>"

text \<open>
  A recording that has an id and nothing else, one whose title is JSON \<open>null\<close>, and
  one without an id.
\<close>

definition rec_untitled :: recording where
  "rec_untitled = \<lparr>rid = Some ''r7'', attrs = Map.empty\<rparr>"

definition rec_null_title :: recording where
  "rec_null_title = \<lparr>rid = Some ''r9'', attrs = [''title'' \<mapsto> JNull]\<rparr>"

definition rec_no_id :: recording where
  "rec_no_id = \<lparr>rid = None, attrs = [''title'' \<mapsto> JStr ''Standup'']\<rparr>"

section \<open>The specification's wording, for comparison\<close>

text \<open>
  The existence index as the specification words it: the directory is the date
  partition when \<open>start_datetime\<close> parses and the flat root otherwise; if it exists, some
  entry is prefixed with the id followed by an underscore.
\<close>

definition spec_alreadyPersisted :: "env \<Rightarrow> world \<Rightarrow> string \<Rightarrow> string \<Rightarrow> json \<Rightarrow> bool" where
  "spec_alreadyPersisted en w output_root i start_datetime =
     (let d = (case parse_start en start_datetime of
                 Some dt \<Rightarrow> date_dir output_root dt
               | None \<Rightarrow> output_root)
      in case listdir w d of
           None \<Rightarrow> False
         | Some names \<Rightarrow> list_ex (\<lambda>f. startswith f (i @ ''_'')) names)"

text \<open>The character class \<open>[A-Za-z0-9 _-]\<close> of the specification.\<close>

definition in_spec_class :: "char \<Rightarrow> bool" where
  "in_spec_class c =
     (let n = (of_char c :: nat) in
        (65 \<le> n \<and> n \<le> 90) \<or> (97 \<le> n \<and> n \<le> 122) \<or> (48 \<le> n \<and> n \<le> 57) \<or>
        c = CHR '' '' \<or> c = CHR ''_'' \<or> c = CHR ''-'')"

section \<open>Unfolding and evaluation\<close>

lemmas run_defs =
  process_all_recordings_def while_True.simps loop_body_def list_recordings_def
  process_recording_def process_recording_try_def existing_download_def get_recording_def
  save_recording_to_json_def date_path_of_def parse_start_def date_dir_def os_path_join_def
  join2_def startswith_def fmt_02d_def str_nat.simps digit_def replace_Z_def makedirs_def
  path_prefixes_def upt_rec add_entry_def del_entry_def parent_def name_of_def mkdir_at_def
  write_json_def can_open_def read_json_def os_remove_def resolve_def step_def above_def
  key_def is_dir_def listdir_def path_exists_def cursor_file_def
  output_data_def get_or_None_def get_default_def sanitize_def rstrip_def keep_char_def
  isalnum_def isspace_def save_cursor_state_def print_def Let_def main_def
  main_try_def resume_state_def subscript_def load_cursor_state_def remove_cursor_state_def

lemmas fixture_defs =
  three_pages_def rec_of_def parse_fixture_def empty_world_def saved_world_def flaky_def
  offline_def read_only_def world_flat_def rec_undated_def world_dated_def
  rec_null_title_def rec_no_id_def corrupt_world_def incomplete_world_def rec_untitled_def
  undated_source_def listed_world_def

section \<open>The handler returns, the loop body always breaks\<close>

lemma process_recording_returns: "fst (process_recording en (JNum sc) r i w) = Inr ()"
  by (simp add: process_recording_def Let_def split: prod.splits sum.splits)

lemma for_recordings_total:
  "fst (for_recordings (process_recording en (JNum sc)) rs n w) = Inr (n + int (length rs))"
proof (induction rs arbitrary: n w)
  case Nil
  show ?case by simp
next
  case (Cons r rs)
  obtain x w' where step: "process_recording en (JNum sc) r (n + 1) w = (x, w')"
    by (cases "process_recording en (JNum sc) r (n + 1) w")
  with process_recording_returns [of en sc r "n + 1" w] have "x = Inr ()" by simp
  with step Cons.IH [of "n + 1" w'] show ?case by simp
qed

lemma loop_body_Break: "loop_body en cb st w = (Inr fl, w') \<Longrightarrow> \<exists>s. fl = Break s"
  by (auto simp: loop_body_def Let_def split: sum.splits prod.splits if_splits)

lemma while_True_once:
  "while_True en cb st w =
     (case loop_body en cb st w of
        (Inl e, w') \<Rightarrow> (Inl e, w')
      | (Inr fl, w') \<Rightarrow> (Inr (case fl of Break s \<Rightarrow> s | Continue s \<Rightarrow> s), w'))"
proof (cases "loop_body en cb st w")
  case (Pair x w')
  show ?thesis
  proof (cases x)
    case (Inl e)
    with Pair show ?thesis by (simp add: while_True.simps)
  next
    case (Inr fl)
    with Pair loop_body_Break [of en cb st w fl w'] obtain s where "fl = Break s" by auto
    with Pair Inr show ?thesis by (simp add: while_True.simps)
  qed
qed

lemma listing_failure_aborts:
  "list_recordings en c = Inl e \<Longrightarrow>
   process_all_recordings en cb c w = (Inl e, print (FetchingPage 1) w)"
  by (simp add: process_all_recordings_def while_True_once loop_body_def Let_def)

section \<open>The cleaned title\<close>

lemma rstrip_subset: "set (rstrip s) \<subseteq> set s"
  unfolding rstrip_def using set_dropWhileD [of _ isspace "rev s"] by auto

lemma rstrip_length: "length (rstrip s) \<le> length s"
  unfolding rstrip_def using length_dropWhile_le [of isspace "rev s"] by simp

lemma rstrip_last: "rstrip s \<noteq> [] \<Longrightarrow> \<not> isspace (last (rstrip s))"
proof -
  assume ne: "rstrip s \<noteq> []"
  let ?r = "dropWhile isspace (rev s)"
  from ne have "?r \<noteq> []" by (simp add: rstrip_def)
  then have "\<not> isspace (hd ?r)" by (rule hd_dropWhile)
  with \<open>?r \<noteq> []\<close> show ?thesis by (simp add: rstrip_def last_rev)
qed

lemma sanitize_subset: "set (sanitize title) \<subseteq> {c \<in> set title. keep_char c}"
proof -
  have "set (sanitize title) \<subseteq> set (rstrip (filter keep_char title))"
    unfolding sanitize_def by (rule set_take_subset)
  also have "\<dots> \<subseteq> set (filter keep_char title)"
    by (rule rstrip_subset)
  finally show ?thesis by auto
qed

lemma sanitize_uncut:
  "length (filter keep_char title) \<le> 50 \<Longrightarrow> sanitize title = rstrip (filter keep_char title)"
  using rstrip_length [of "filter keep_char title"] by (simp add: sanitize_def)

lemma keep_char_ascii: "(of_char c :: nat) < 128 \<Longrightarrow> keep_char c \<Longrightarrow> in_spec_class c"
  by (auto simp: keep_char_def isalnum_def in_spec_class_def Let_def)

section \<open>Paths and places\<close>

lemma split_slash_append:
  "split_slash (a @ CHR ''/'' # b) = split_slash a @ split_slash b"
proof (induction a)
  case Nil
  show ?case by simp
next
  case (Cons c a)
  show ?case
  proof (cases "c = CHR ''/''")
    case True
    with Cons show ?thesis by simp
  next
    case False
    obtain x xs where "split_slash a = x # xs"
      by (cases "split_slash a") (cases a, auto split: if_splits list.splits)
    with False Cons show ?thesis by simp
  qed
qed

lemma split_slash_plain: "CHR ''/'' \<notin> set b \<Longrightarrow> split_slash b = [b]"
  by (induction b) auto

lemma walk_append:
  "walk w l (xs @ ys) = (case walk w l xs of None \<Rightarrow> None | Some l' \<Rightarrow> walk w l' ys)"
  by (induction xs arbitrary: l) auto

lemma walk_mono:
  "(\<And>x. is_dir w x \<Longrightarrow> is_dir w' x) \<Longrightarrow> walk w l cs = Some l' \<Longrightarrow> walk w' l cs = Some l'"
  by (induction cs arbitrary: l) (auto split: if_splits)

lemma resolve_mono:
  assumes "\<And>x. is_dir w x \<Longrightarrow> is_dir w' x" and "resolve w p = Some l"
  shows "resolve w' p = Some l"
proof -
  from assms(2) have "p \<noteq> []"
    and "walk w (startswith p ''/'', []) (split_slash p) = Some l"
    by (auto simp: resolve_def split: if_splits)
  with walk_mono [of w w', OF assms(1)] show ?thesis
    by (simp add: resolve_def)
qed

lemma step_name: "c \<noteq> [] \<Longrightarrow> c \<noteq> ''.'' \<Longrightarrow> c \<noteq> ''..'' \<Longrightarrow> step l c = (fst l, snd l @ [c])"
  by (simp add: step_def)

lemma add_entry_None_iff: "(add_entry ds d n k = None) = (ds k = None)"
  by (auto simp: add_entry_def split: option.splits if_splits)

lemma is_dir_mkdir_at: "is_dir w x \<Longrightarrow> is_dir (mkdir_at l w) x"
  by (auto simp: is_dir_def mkdir_at_def add_entry_None_iff)

lemma is_dir_mkdir_at_self: "is_dir (mkdir_at l w) l"
  by (auto simp: is_dir_def mkdir_at_def add_entry_None_iff)

lemma mkdirs_mono: "mkdirs en ds w = (r, w') \<Longrightarrow> is_dir w x \<Longrightarrow> is_dir w' x"
proof (induction ds arbitrary: w)
  case Nil
  then show ?case by simp
next
  case (Cons a ds)
  show ?case
  proof (cases "resolve w a")
    case None
    with Cons.prems show ?thesis by simp
  next
    case (Some l)
    show ?thesis
    proof (cases "is_dir w l")
      case True
      with Some Cons.prems(1) have "mkdirs en ds w = (r, w')" by simp
      from Cons.IH [OF this Cons.prems(2)] show ?thesis .
    next
      case False
      show ?thesis
      proof (cases "files w (key l) = None \<and> \<not> denied en (key l)")
        case ok: True
        with Some False Cons.prems(1) have "mkdirs en ds (mkdir_at l w) = (r, w')" by simp
        moreover from Cons.prems(2) have "is_dir (mkdir_at l w) x" by (rule is_dir_mkdir_at)
        ultimately show ?thesis by (rule Cons.IH)
      next
        case no: False
        with Some False Cons.prems show ?thesis by auto
      qed
    qed
  qed
qed

lemma mkdirs_creates:
  "mkdirs en ds w = (Inr (), w') \<Longrightarrow> d \<in> set ds \<Longrightarrow> \<exists>l. resolve w' d = Some l \<and> is_dir w' l"
proof (induction ds arbitrary: w)
  case Nil
  then show ?case by simp
next
  case (Cons a ds)
  from Cons.prems(1) obtain l where l: "resolve w a = Some l"
    by (cases "resolve w a") auto
  show ?case
  proof (cases "is_dir w l")
    case True
    with l Cons.prems(1) have rest: "mkdirs en ds w = (Inr (), w')" by simp
    show ?thesis
    proof (cases "d = a")
      case da: True
      have "resolve w' a = Some l"
        using mkdirs_mono [OF rest] l by (rule resolve_mono)
      moreover have "is_dir w' l" using rest True by (rule mkdirs_mono)
      ultimately show ?thesis using da by blast
    next
      case False
      with Cons.prems(2) have "d \<in> set ds" by simp
      with rest show ?thesis by (rule Cons.IH)
    qed
  next
    case False
    with l Cons.prems(1) have ok: "files w (key l) = None \<and> \<not> denied en (key l)"
      by (auto split: if_splits)
    with l False Cons.prems(1) have rest: "mkdirs en ds (mkdir_at l w) = (Inr (), w')" by simp
    show ?thesis
    proof (cases "d = a")
      case da: True
      have "resolve (mkdir_at l w) a = Some l"
        using is_dir_mkdir_at l by (rule resolve_mono)
      then have "resolve w' a = Some l"
        using mkdirs_mono [OF rest] by (rule resolve_mono [rotated])
      moreover have "is_dir w' l" using rest is_dir_mkdir_at_self by (rule mkdirs_mono)
      ultimately show ?thesis using da by blast
    next
      case False
      with Cons.prems(2) have "d \<in> set ds" by simp
      with rest show ?thesis by (rule Cons.IH)
    qed
  qed
qed

lemma makedirs_creates:
  assumes "makedirs en p w = (Inr (), w')"
  shows "\<exists>l. resolve w' p = Some l \<and> is_dir w' l"
proof -
  have "p \<in> set (path_prefixes p)"
    by (simp add: path_prefixes_def)
  moreover from assms have "mkdirs en (path_prefixes p) w = (Inr (), w')"
    by (simp add: makedirs_def split: if_splits)
  ultimately show ?thesis
    by (rule mkdirs_creates [rotated])
qed

lemma write_json_Inr:
  assumes "write_json en path v w = (Inr (), w')"
  shows "\<exists>l. resolve w path = Some l \<and> resolve w' path = Some l \<and>
             files w' (key l) = Some (Json v) \<and>
             (\<forall>x. is_dir w x \<longrightarrow> is_dir w' x) \<and>
             (\<forall>q lq. resolve w q = Some lq \<longrightarrow> resolve w' q = Some lq)"
proof -
  from assms obtain l where l: "resolve w path = Some l"
    and w': "w' = w\<lparr>files := (files w)(key l \<mapsto> Json v),
                    dirs := add_entry (dirs w) (key (parent l)) (name_of l)\<rparr>"
    by (auto simp: write_json_def split: if_splits option.splits)
  have mono: "is_dir w x \<Longrightarrow> is_dir w' x" for x
    by (simp add: w' is_dir_def add_entry_None_iff)
  then have res: "resolve w q = Some lq \<Longrightarrow> resolve w' q = Some lq" for q lq
    by (rule resolve_mono)
  from l res have "resolve w' path = Some l" by blast
  moreover have "files w' (key l) = Some (Json v)" by (simp add: w')
  ultimately show ?thesis using l mono res by blast
qed

lemma kept_items_no_slash: "kept_items xs = Inr r \<Longrightarrow> CHR ''/'' \<notin> set r"
proof (induction xs arbitrary: r rule: kept_items.induct)
  case 1
  then show ?case by simp
next
  case (2 s cs)
  then obtain r' where r': "kept_items cs = Inr r'"
    and r: "r = (if str_isalnum s \<or> s \<in> {'' '', ''-'', ''_''} then s else []) @ r'"
    by (auto split: sum.splits)
  from "2.IH" [OF r'] have "CHR ''/'' \<notin> set r'" .
  moreover have "str_isalnum s \<Longrightarrow> CHR ''/'' \<notin> set s"
    by (auto simp: str_isalnum_def list_all_iff isalnum_def)
  ultimately show ?case using r by auto
qed simp_all

lemma safe_title_no_slash: "safe_title v = Inr st \<Longrightarrow> CHR ''/'' \<notin> set st"
proof (cases v)
  case (JStr s)
  assume "safe_title v = Inr st"
  with JStr have "st = sanitize s" by simp
  with sanitize_subset [of s] show ?thesis
    by (auto simp: keep_char_def isalnum_def)
next
  case (JList xs)
  assume "safe_title v = Inr st"
  with JList obtain r where "kept_items xs = Inr r" and "st = take 50 (rstrip r)"
    by (auto split: sum.splits)
  with kept_items_no_slash [of xs r] rstrip_subset [of r] set_take_subset [of 50 "rstrip r"]
  show ?thesis by auto
next
  case (JObj kvs)
  assume "safe_title v = Inr st"
  with JObj obtain r where "kept_items (map (\<lambda>kv. JStr (fst kv)) kvs) = Inr r"
    and "st = take 50 (rstrip r)"
    by (auto split: sum.splits)
  with kept_items_no_slash [of "map (\<lambda>kv. JStr (fst kv)) kvs" r] rstrip_subset [of r]
    set_take_subset [of 50 "rstrip r"]
  show ?thesis by auto
qed simp_all

section \<open>Digits and joined paths\<close>

lemma digit_in_digits: "d < 10 \<Longrightarrow> digit d \<in> set ''0123456789''"
  unfolding digit_def by (rule nth_mem) simp

lemma str_nat_digits: "str_nat n \<noteq> [] \<and> set (str_nat n) \<subseteq> set ''0123456789''"
proof (induction n rule: str_nat.induct)
  case (1 n)
  show ?case
  proof (cases "n < 10")
    case True
    with digit_in_digits [of n] show ?thesis
      by (subst (1 2) str_nat.simps) simp
  next
    case False
    with "1.IH" digit_in_digits [of "n mod 10"] show ?thesis
      by (subst (1 2) str_nat.simps) simp
  qed
qed

lemma fmt_02d_digits: "fmt_02d n \<noteq> [] \<and> set (fmt_02d n) \<subseteq> set ''0123456789''"
  using str_nat_digits [of n] by (simp add: fmt_02d_def)

lemma digits_no_slash:
  assumes "s \<noteq> []" and "set s \<subseteq> set ''0123456789''"
  shows "\<not> startswith s ''/'' \<and> last s \<noteq> CHR ''/''"
proof -
  from assms have "hd s \<in> set ''0123456789''" and "last s \<in> set ''0123456789''"
    by (auto dest: hd_in_set last_in_set)
  then have "hd s \<noteq> CHR ''/''" and l: "last s \<noteq> CHR ''/''"
    by auto
  with assms(1) have "\<not> startswith s ''/''"
    by (cases s) (simp_all add: startswith_def)
  with l show ?thesis by simp
qed

lemma join2_plain:
  "path \<noteq> [] \<Longrightarrow> last path \<noteq> CHR ''/'' \<Longrightarrow> \<not> startswith b ''/'' \<Longrightarrow>
   join2 path b = path @ ''/'' @ b"
  by (simp add: join2_def)

lemma date_dir_plain:
  assumes "root \<noteq> []" and "last root \<noteq> CHR ''/''"
  shows "date_dir root dt
           = root @ ''/'' @ str_nat (year dt) @ ''/'' @ fmt_02d (month dt) @ ''/''
               @ fmt_02d (day dt)"
proof -
  note y = digits_no_slash [OF conjunct1 [OF str_nat_digits] conjunct2 [OF str_nat_digits],
                            of "year dt"]
  note m = digits_no_slash [OF conjunct1 [OF fmt_02d_digits] conjunct2 [OF fmt_02d_digits],
                            of "month dt"]
  note d = digits_no_slash [OF conjunct1 [OF fmt_02d_digits] conjunct2 [OF fmt_02d_digits],
                            of "day dt"]
  have 1: "join2 root (str_nat (year dt)) = root @ ''/'' @ str_nat (year dt)"
    using assms y by (simp add: join2_plain)
  have 2: "join2 (root @ ''/'' @ str_nat (year dt)) (fmt_02d (month dt))
             = root @ ''/'' @ str_nat (year dt) @ ''/'' @ fmt_02d (month dt)"
    using y m str_nat_digits [of "year dt"] by (simp add: join2_def)
  have 3: "join2 (root @ ''/'' @ str_nat (year dt) @ ''/'' @ fmt_02d (month dt))
                 (fmt_02d (day dt))
             = root @ ''/'' @ str_nat (year dt) @ ''/'' @ fmt_02d (month dt) @ ''/''
                 @ fmt_02d (day dt)"
    using m d fmt_02d_digits [of "month dt"] by (simp add: join2_def)
  show ?thesis
    by (simp only: date_dir_def os_path_join_def foldl.simps 1 2 3)
qed

lemma date_dir_last:
  "date_dir root dt \<noteq> [] \<and> last (date_dir root dt) \<noteq> CHR ''/''"
proof -
  note d = digits_no_slash [OF conjunct1 [OF fmt_02d_digits] conjunct2 [OF fmt_02d_digits],
                            of "day dt"]
  let ?p = "join2 (join2 root (str_nat (year dt))) (fmt_02d (month dt))"
  have "date_dir root dt = join2 ?p (fmt_02d (day dt))"
    by (simp add: date_dir_def os_path_join_def)
  moreover have "join2 ?p (fmt_02d (day dt)) = ?p @ fmt_02d (day dt) \<or>
                 join2 ?p (fmt_02d (day dt)) = ?p @ ''/'' @ fmt_02d (day dt)"
    using d by (simp add: join2_def)
  ultimately show ?thesis
    using d fmt_02d_digits [of "day dt"] by auto
qed

lemma startswith_filename:
  "startswith (i @ CHR ''_'' # rest) ''/'' = startswith i ''/''"
  by (cases i) (simp_all add: startswith_def)

lemma date_path_last:
  assumes "root \<noteq> []" and "last root \<noteq> CHR ''/''"
  shows "fst (date_path_of en rd root w) \<noteq> [] \<and>
         last (fst (date_path_of en rd root w)) \<noteq> CHR ''/''"
  using assms date_dir_last
  by (auto simp: date_path_of_def Let_def split: option.splits)

lemma fmt_02d_padded:
  "(n < 10 \<longrightarrow> fmt_02d n = [CHR ''0'', digit n]) \<and> (n < 100 \<longrightarrow> length (fmt_02d n) = 2)"
proof -
  have small: "m < 10 \<Longrightarrow> str_nat m = [digit m]" for m
    by (subst str_nat.simps) simp
  have a: "n < 10 \<longrightarrow> fmt_02d n = [CHR ''0'', digit n]"
    by (simp add: fmt_02d_def small)
  have b: "n < 100 \<longrightarrow> length (fmt_02d n) = 2"
  proof
    assume n: "n < 100"
    show "length (fmt_02d n) = 2"
    proof (cases "n < 10")
      case True
      with a show ?thesis by simp
    next
      case False
      from n have "n div 10 < 10" by simp
      then have "str_nat (n div 10) = [digit (n div 10)]" by (rule small)
      with False have "str_nat n = [digit (n div 10), digit (n mod 10)]"
        by (subst str_nat.simps) simp
      with False show ?thesis by (simp add: fmt_02d_def)
    qed
  qed
  from a b show ?thesis by blast
qed

section \<open>What a successful save did\<close>

lemma save_recording_to_json_steps:
  assumes "save_recording_to_json en rd root w = (Inr path, w')"
  shows "\<exists>i st w2 w3.
           rid rd = Some i \<and>
           safe_title (get_default rd ''title'' (JStr ''Untitled'')) = Inr st \<and>
           path = os_path_join (fst (date_path_of en rd root w)) [i @ ''_'' @ st @ ''.json''] \<and>
           makedirs en (fst (date_path_of en rd root w)) (snd (date_path_of en rd root w))
             = (Inr (), w2) \<and>
           write_json en path (output_data i rd) w2 = (Inr (), w3) \<and>
           w' = print (SavedFile path) w3"
proof (cases "date_path_of en rd root w")
  case (Pair dp w1)
  with assms show ?thesis
    by (auto simp: save_recording_to_json_def Let_def
             split: prod.splits sum.splits option.splits)
qed

lemma save_recording_to_json_Inr:
  assumes "save_recording_to_json en rd root w = (Inr path, w')"
  shows "\<exists>i st ld l.
           rid rd = Some i \<and>
           safe_title (get_default rd ''title'' (JStr ''Untitled'')) = Inr st \<and>
           path = os_path_join (fst (date_path_of en rd root w)) [i @ ''_'' @ st @ ''.json''] \<and>
           resolve w' (fst (date_path_of en rd root w)) = Some ld \<and> is_dir w' ld \<and>
           resolve w' path = Some l \<and>
           files w' (key l) = Some (Json (output_data i rd))"
proof -
  let ?dp = "fst (date_path_of en rd root w)"
  let ?w1 = "snd (date_path_of en rd root w)"
  from save_recording_to_json_steps [OF assms] obtain i st w2 w3 where
    i: "rid rd = Some i" and
    st: "safe_title (get_default rd ''title'' (JStr ''Untitled'')) = Inr st" and
    path: "path = os_path_join ?dp [i @ ''_'' @ st @ ''.json'']" and
    mk: "makedirs en ?dp ?w1 = (Inr (), w2)" and
    wr: "write_json en path (output_data i rd) w2 = (Inr (), w3)" and
    w': "w' = print (SavedFile path) w3"
    by blast
  from makedirs_creates [OF mk] obtain ld where ld: "resolve w2 ?dp = Some ld" "is_dir w2 ld"
    by blast
  from write_json_Inr [OF wr] obtain l where
    l: "resolve w3 path = Some l" "files w3 (key l) = Some (Json (output_data i rd))" and
    mono: "\<And>x. is_dir w2 x \<Longrightarrow> is_dir w3 x" and
    res: "\<And>q lq. resolve w2 q = Some lq \<Longrightarrow> resolve w3 q = Some lq"
    by blast
  have pr: "is_dir w' x = is_dir w3 x" for x
    by (simp add: w' print_def is_dir_def)
  have "resolve w' q = resolve w3 q" for q
  proof (cases "resolve w3 q")
    case None
    show ?thesis
    proof (cases "resolve w' q")
      case None
      with \<open>resolve w3 q = None\<close> show ?thesis by simp
    next
      case (Some lq)
      then have "resolve w3 q = Some lq" using pr by (intro resolve_mono [of w' w3]) auto
      with None show ?thesis by simp
    qed
  next
    case (Some lq)
    then show ?thesis using pr by (simp add: resolve_mono [of w3 w'])
  qed
  with ld l mono res pr have
    "resolve w' ?dp = Some ld" "is_dir w' ld" "resolve w' path = Some l"
    "files w' (key l) = Some (Json (output_data i rd))"
    by (auto simp: w' print_def)
  with i st path show ?thesis by blast
qed

lemma startswith_append: "p \<noteq> [] \<Longrightarrow> startswith (p @ q) ''/'' = startswith p ''/''"
  by (cases p) (simp_all add: startswith_def)

lemma resolve_join2:
  assumes dp: "resolve w dp = Some ld" and dir: "is_dir w ld"
    and fn: "CHR ''/'' \<notin> set fn" "fn \<noteq> []" "fn \<noteq> ''.''" "fn \<noteq> ''..''"
  shows "resolve w (join2 dp fn) = Some (fst ld, snd ld @ [fn])"
proof -
  from dp have ne: "dp \<noteq> []"
    and wk: "walk w (startswith dp ''/'', []) (split_slash dp) = Some ld"
    by (auto simp: resolve_def split: if_splits)
  from fn have nostart: "\<not> startswith fn ''/''"
    by (cases fn) (auto simp: startswith_def)
  have fns: "split_slash fn = [fn]"
    using fn(1) by (rule split_slash_plain)
  have st: "step l fn = (fst l, snd l @ [fn])" for l
    using fn by (simp add: step_name)
  show ?thesis
  proof (cases "last dp = CHR ''/''")
    case True
    with ne have dpe: "dp = butlast dp @ ''/''"
      by (metis append_butlast_last_id)
    let ?xs = "split_slash (butlast dp)"
    have "split_slash dp = ?xs @ [[]]"
      by (subst dpe) (simp add: split_slash_append)
    with wk obtain l0 where l0: "walk w (startswith dp ''/'', []) ?xs = Some l0"
      and last: "walk w l0 [[]] = Some ld"
      by (auto simp: walk_append split: option.splits)
    from last have "is_dir w l0" and "ld = l0"
      by (auto simp: step_def split: if_splits)
    have j: "join2 dp fn = butlast dp @ CHR ''/'' # fn"
      using True ne nostart dpe by (simp add: join2_def)
    have "split_slash (join2 dp fn) = ?xs @ [fn]"
      by (simp add: j split_slash_append fns)
    moreover have "startswith (join2 dp fn) ''/'' = startswith dp ''/''"
      using ne nostart True by (simp add: join2_def startswith_append)
    moreover have "join2 dp fn \<noteq> []"
      using ne nostart True by (simp add: join2_def)
    ultimately show ?thesis
      using l0 \<open>is_dir w l0\<close> \<open>ld = l0\<close> st
      by (simp add: resolve_def walk_append)
  next
    case False
    with ne nostart have j: "join2 dp fn = dp @ CHR ''/'' # fn"
      by (simp add: join2_def)
    have "split_slash (join2 dp fn) = split_slash dp @ [fn]"
      by (simp add: j split_slash_append fns)
    moreover have "startswith (join2 dp fn) ''/'' = startswith dp ''/''"
      using ne by (simp add: j startswith_append)
    ultimately show ?thesis
      using wk dir st by (simp add: resolve_def walk_append j)
  qed
qed

lemma filename_is_name:
  assumes "CHR ''/'' \<notin> set i" and "CHR ''/'' \<notin> set st"
  shows "CHR ''/'' \<notin> set (i @ ''_'' @ st @ ''.json'') \<and> i @ ''_'' @ st @ ''.json'' \<noteq> [] \<and>
         i @ ''_'' @ st @ ''.json'' \<noteq> ''.'' \<and> i @ ''_'' @ st @ ''.json'' \<noteq> ''..''"
proof -
  have "length (i @ ''_'' @ st @ ''.json'') \<ge> 6" by simp
  then have "i @ ''_'' @ st @ ''.json'' \<noteq> []" "i @ ''_'' @ st @ ''.json'' \<noteq> ''.''"
    "i @ ''_'' @ st @ ''.json'' \<noteq> ''..''"
    by (auto simp del: append_assoc dest!: arg_cong [where f = length])
  with assms show ?thesis by simp
qed

lemma str_nat_four: "1000 \<le> n \<and> n < 10000 \<longrightarrow> length (str_nat n) = 4"
proof
  assume h: "1000 \<le> n \<and> n < 10000"
  then have 1: "str_nat n = str_nat (n div 10) @ [digit (n mod 10)]"
    by (subst str_nat.simps) simp
  from h have "100 \<le> n div 10" by arith
  then have 2: "str_nat (n div 10) = str_nat (n div 10 div 10) @ [digit (n div 10 mod 10)]"
    by (subst str_nat.simps) simp
  from h have "10 \<le> n div 10 div 10" by arith
  then have 3: "str_nat (n div 10 div 10)
                  = str_nat (n div 10 div 10 div 10) @ [digit (n div 10 div 10 mod 10)]"
    by (subst str_nat.simps) simp
  from h have "n div 10 div 10 div 10 < 10" by arith
  then have 4: "str_nat (n div 10 div 10 div 10) = [digit (n div 10 div 10 div 10)]"
    by (subst str_nat.simps) simp
  show "length (str_nat n) = 4"
    by (simp add: 1 2 3 4)
qed

lemma startswith_longer: "startswith f (i @ s) \<Longrightarrow> startswith f i"
proof -
  assume "startswith f (i @ s)"
  then have "take (length (i @ s)) f = i @ s"
    by (simp add: startswith_def)
  then have "f = (i @ s) @ drop (length (i @ s)) f"
    by (metis append_take_drop_id)
  then have "take (length i) f = take (length i) (i @ s @ drop (length (i @ s)) f)"
    by (metis append_assoc)
  then show "startswith f i"
    by (simp add: startswith_def)
qed

lemma listdir_exists: "listdir w p = Some names \<Longrightarrow> path_exists w p"
  by (auto simp: listdir_def path_exists_def is_dir_def split: option.splits)

lemma first_match:
  "((case filter P names of [] \<Rightarrow> None | f # x \<Rightarrow> Some (g f)) \<noteq> None) = list_ex P names"
  by (cases "filter P names") (auto simp: list_ex_iff filter_empty_conv filter_eq_Cons_iff)

lemma first_match_Some:
  "(case filter P names of [] \<Rightarrow> None | f # x \<Rightarrow> Some (g f)) = Some p
     \<Longrightarrow> \<exists>f. f \<in> set names \<and> P f \<and> p = g f"
  by (cases "filter P names") (auto simp: filter_eq_Cons_iff)






section \<open>Pagination\<close>

text \<open>
  C1. The sync engine should go on to the next page whenever a page is not empty and
  carries a cursor, so that every record of every page reaches the handler. The code
  does not: on the three-page workspace the listing has a second page behind cursor
  \<open>c1\<close>, yet \<open>process_all_recordings\<close> returns 1 after the first page; the console
  shows one listing request and one record handled, and the file of \<open>r2\<close> is never
  written.
\<close>

theorem C1_only_first_page_processed:
  "list_recordings three_pages (JStr ''c1'') =
     Inr \<lparr>resp_recordings = [rec_of ''r2'' ''Retro''], resp_cursor = JStr ''c2''\<rparr> \<and>
   fst (process_all_recordings three_pages (process_recording three_pages (JNum 0)) JNull
          empty_world)
     = Inr 1 \<and>
   stdout (snd (process_all_recordings three_pages (process_recording three_pages (JNum 0))
                  JNull empty_world))
     = [FetchingPage 1, ProcessingPage 1, Processing 1 (JStr ''Standup''),
        SavedFile ''recordings/2024/03/05/r1_Standup.json'', SavedCursorState 1] \<and>
   files (snd (process_all_recordings three_pages (process_recording three_pages (JNum 0))
                 JNull empty_world)) ''recordings/2024/03/05/r2_Retro.json''
     = None"
proof -
  have a: "list_recordings three_pages (JStr ''c1'') =
     Inr \<lparr>resp_recordings = [rec_of ''r2'' ''Retro''], resp_cursor = JStr ''c2''\<rparr>"
    by (simp add: list_recordings_def three_pages_def)
  have b: "fst (process_all_recordings three_pages (process_recording three_pages (JNum 0))
                  JNull empty_world) = Inr 1"
    by (simp add: run_defs fixture_defs)
  have c: "stdout (snd (process_all_recordings three_pages
                          (process_recording three_pages (JNum 0)) JNull empty_world))
     = [FetchingPage 1, ProcessingPage 1, Processing 1 (JStr ''Standup''),
        SavedFile ''recordings/2024/03/05/r1_Standup.json'', SavedCursorState 1]"
    by (simp add: run_defs fixture_defs)
  have d: "files (snd (process_all_recordings three_pages
                         (process_recording three_pages (JNum 0)) JNull empty_world))
             ''recordings/2024/03/05/r2_Retro.json'' = None"
    by (simp add: run_defs fixture_defs)
  from a b c d show ?thesis by blast
qed

section \<open>The checkpoint\<close>

text \<open>
  C2. The checkpoint file should be deleted only by a run that exhausted the cursor.
  The code deletes it while pages remain: on the three-page workspace the engine saves
  the checkpoint for cursor \<open>c1\<close> and returns after the first page, \<open>main\<close> takes the
  return for completion and removes the file, although the page behind \<open>c1\<close> holds
  \<open>r2\<close>.
\<close>

theorem C2_checkpoint_removed_with_pages_left:
  "resp_recordings (projr (list_recordings three_pages (JStr ''c1''))) \<noteq> [] \<and>
   cursor_file (snd (process_all_recordings three_pages
                       (process_recording three_pages (JNum 0)) JNull empty_world))
     = Some (Json (JObj [(''cursor'', JStr ''c1''), (''processed_count'', JNum 1),
                         (''timestamp'', JStr ''2026-01-01T00:00:00'')])) \<and>
   fst (main three_pages empty_world) = Inr () \<and>
   cursor_file (snd (main three_pages empty_world)) = None \<and>
   stdout (snd (main three_pages empty_world))
     = [FetchingAll, FetchingPage 1, ProcessingPage 1, Processing 1 (JStr ''Standup''),
        SavedFile ''recordings/2024/03/05/r1_Standup.json'', SavedCursorState 1,
        Completed 1, RemovedCursorState]"
proof -
  have a: "resp_recordings (projr (list_recordings three_pages (JStr ''c1''))) \<noteq> []"
    by (simp add: list_recordings_def three_pages_def)
  have b: "cursor_file (snd (process_all_recordings three_pages
                               (process_recording three_pages (JNum 0)) JNull empty_world))
     = Some (Json (JObj [(''cursor'', JStr ''c1''), (''processed_count'', JNum 1),
                         (''timestamp'', JStr ''2026-01-01T00:00:00'')]))"
    by (simp add: run_defs fixture_defs)
  have c: "fst (main three_pages empty_world) = Inr ()"
    by (simp add: run_defs fixture_defs)
  have d: "cursor_file (snd (main three_pages empty_world)) = None"
    by (simp add: run_defs fixture_defs)
  have e: "stdout (snd (main three_pages empty_world))
     = [FetchingAll, FetchingPage 1, ProcessingPage 1, Processing 1 (JStr ''Standup''),
        SavedFile ''recordings/2024/03/05/r1_Standup.json'', SavedCursorState 1,
        Completed 1, RemovedCursorState]"
    by (simp add: run_defs fixture_defs)
  from a b c d e show ?thesis by blast
qed

text \<open>
  C3. The count written by a checkpoint save should never fall below the count of the
  checkpoint the run resumed from. The code restarts it: resumed from the checkpoint
  of 100 recordings at cursor \<open>c1\<close>, the handler numbers the next record 101, but the
  engine counts from 0 and saves the checkpoint for cursor \<open>c2\<close> with a count of 1.
\<close>

theorem C3_count_restarts_on_resume:
  "load_cursor_state saved_world
     = (JObj [(''cursor'', JStr ''c1''), (''processed_count'', JNum 100),
              (''timestamp'', JStr ''2025-12-31T00:00:00'')],
        saved_world) \<and>
   cursor_file (snd (process_all_recordings three_pages
                       (process_recording three_pages (JNum 100)) (JStr ''c1'') saved_world))
     = Some (Json (JObj [(''cursor'', JStr ''c2''), (''processed_count'', JNum 1),
                         (''timestamp'', JStr ''2026-01-01T00:00:00'')])) \<and>
   stdout (snd (main three_pages saved_world))
     = [FetchingAll, FoundSavedState (JStr ''2025-12-31T00:00:00''),
        AlreadyProcessed (JNum 100), FetchingPage 1,
        ProcessingPage 1, Processing 101 (JStr ''Retro''),
        SavedFile ''recordings/2024/03/05/r2_Retro.json'', SavedCursorState 1,
        Completed 1, RemovedCursorState]"
proof -
  have a: "load_cursor_state saved_world
     = (JObj [(''cursor'', JStr ''c1''), (''processed_count'', JNum 100),
              (''timestamp'', JStr ''2025-12-31T00:00:00'')],
        saved_world)"
    by (simp add: run_defs fixture_defs)
  have b: "cursor_file (snd (process_all_recordings three_pages
                               (process_recording three_pages (JNum 100)) (JStr ''c1'')
                               saved_world))
     = Some (Json (JObj [(''cursor'', JStr ''c2''), (''processed_count'', JNum 1),
                         (''timestamp'', JStr ''2026-01-01T00:00:00'')]))"
    by (simp add: run_defs fixture_defs)
  have c: "stdout (snd (main three_pages saved_world))
     = [FetchingAll, FoundSavedState (JStr ''2025-12-31T00:00:00''),
        AlreadyProcessed (JNum 100), FetchingPage 1,
        ProcessingPage 1, Processing 101 (JStr ''Retro''),
        SavedFile ''recordings/2024/03/05/r2_Retro.json'', SavedCursorState 1,
        Completed 1, RemovedCursorState]"
    by (simp add: run_defs fixture_defs)
  from a b c show ?thesis by blast
qed

section \<open>Failures of the detail request\<close>

text \<open>
  C4, as the specification states it, fails: the claim has a transport failure of the
  detail request abort the run and reach the caller of \<open>main\<close>. On the one-page
  workspace where the request for \<open>r1\<close> fails in the transport, \<open>main\<close> returns
  normally, the error is printed, and \<open>r2\<close> is handled and saved after it.
\<close>

theorem C4_transport_failure_does_not_abort:
  "get_recording flaky ''r1'' = Inl ConnectionError \<and>
   fst (main flaky empty_world) = Inr () \<and>
   stdout (snd (main flaky empty_world))
     = [FetchingAll, FetchingPage 1, ProcessingPage 2, Processing 1 (JStr ''Standup''),
        ErrorMsg ConnectionError, Processing 2 (JStr ''Retro''),
        SavedFile ''recordings/2024/03/05/r2_Retro.json'', Completed 2]"
proof -
  have a: "get_recording flaky ''r1'' = Inl ConnectionError"
    by (simp add: get_recording_def flaky_def)
  have b: "fst (main flaky empty_world) = Inr ()"
    by (simp add: run_defs fixture_defs)
  have c: "stdout (snd (main flaky empty_world))
     = [FetchingAll, FetchingPage 1, ProcessingPage 2, Processing 1 (JStr ''Standup''),
        ErrorMsg ConnectionError, Processing 2 (JStr ''Retro''),
        SavedFile ''recordings/2024/03/05/r2_Retro.json'', Completed 2]"
    by (simp add: run_defs fixture_defs)
  from a b c show ?thesis by blast
qed

text \<open>
  C4, amended. A detail request that fails, in the transport or otherwise, does not
  abort the run: the handler catches the exception, prints it and returns, so the
  handler never raises, the record is counted and every record of the page is
  handled. What aborts the run is a failure of the listing request: it reaches the
  caller of \<open>main\<close>, and nothing but the console has changed, so the checkpoint file is
  as it was.
\<close>

theorem C4_detail_failure_is_caught:
  "fst (process_recording en (JNum sc) r i w) = Inr () \<and>
   (rid r = Some ri \<and>
    existing_download en
      (print (Processing (sc + i) (get_default r ''title'' (JStr ''Untitled''))) w) ri
      (get_or_None r ''start_datetime'') = None \<and>
    get_recording en ri = Inl e \<longrightarrow>
      process_recording en (JNum sc) r i w
        = (Inr (),
           print (ErrorMsg e)
             (print (Processing (sc + i) (get_default r ''title'' (JStr ''Untitled''))) w))) \<and>
   fst (for_recordings (process_recording en (JNum sc)) rs n w) = Inr (n + int (length rs)) \<and>
   (list_recordings en c = Inl e' \<longrightarrow>
      main_try en (JNum sc) c w
        = (Inl e', print (ErrorDuringProcessing e') (print (FetchingPage 1) w)))"
proof -
  have a: "fst (process_recording en (JNum sc) r i w) = Inr ()"
    by (rule process_recording_returns)
  have b: "rid r = Some ri \<and>
    existing_download en
      (print (Processing (sc + i) (get_default r ''title'' (JStr ''Untitled''))) w) ri
      (get_or_None r ''start_datetime'') = None \<and>
    get_recording en ri = Inl e \<longrightarrow>
      process_recording en (JNum sc) r i w
        = (Inr (),
           print (ErrorMsg e)
             (print (Processing (sc + i) (get_default r ''title'' (JStr ''Untitled''))) w))"
    by (simp add: process_recording_def process_recording_try_def Let_def)
  have c: "fst (for_recordings (process_recording en (JNum sc)) rs n w) = Inr (n + int (length rs))"
    by (rule for_recordings_total)
  have d: "list_recordings en c = Inl e' \<longrightarrow>
      main_try en (JNum sc) c w
        = (Inl e', print (ErrorDuringProcessing e') (print (FetchingPage 1) w))"
    by (simp add: main_try_def listing_failure_aborts)
  from a b c d show ?thesis by blast
qed

theorem C4_detail_failure_is_caught_witness:
  "rid (rec_of ''r1'' ''Standup'') = Some ''r1'' \<and>
   existing_download flaky
     (print (Processing (0 + 1) (get_default (rec_of ''r1'' ''Standup'') ''title''
                                   (JStr ''Untitled''))) empty_world) ''r1''
     (get_or_None (rec_of ''r1'' ''Standup'') ''start_datetime'') = None \<and>
   get_recording flaky ''r1'' = Inl ConnectionError \<and>
   stdout (snd (process_recording flaky (JNum 0) (rec_of ''r1'' ''Standup'') 1 empty_world))
     = [Processing 1 (JStr ''Standup''), ErrorMsg ConnectionError] \<and>
   fst (for_recordings (process_recording flaky (JNum 0))
          [rec_of ''r1'' ''Standup'', rec_of ''r2'' ''Retro''] 0 empty_world) = Inr 2 \<and>
   list_recordings offline JNull = Inl ConnectionError \<and>
   fst (main_try offline (JNum 0) JNull saved_world) = Inl ConnectionError \<and>
   cursor_file (snd (main_try offline (JNum 0) JNull saved_world)) = cursor_file saved_world"
proof -
  have h1: "rid (rec_of ''r1'' ''Standup'') = Some ''r1''"
    by (simp add: rec_of_def)
  have h2: "existing_download flaky
     (print (Processing (0 + 1) (get_default (rec_of ''r1'' ''Standup'') ''title''
                                   (JStr ''Untitled''))) empty_world) ''r1''
     (get_or_None (rec_of ''r1'' ''Standup'') ''start_datetime'') = None"
    by (simp add: run_defs fixture_defs)
  have h3: "get_recording flaky ''r1'' = Inl ConnectionError"
    by (simp add: get_recording_def flaky_def)
  have h4: "list_recordings offline JNull = Inl ConnectionError"
    by (simp add: list_recordings_def offline_def)
  note t1 = C4_detail_failure_is_caught
    [of flaky 0 "rec_of ''r1'' ''Standup''" 1 empty_world "''r1''" ConnectionError
        "[rec_of ''r1'' ''Standup'', rec_of ''r2'' ''Retro'']" 0 JNull ConnectionError]
  note t2 = C4_detail_failure_is_caught
    [of offline 0 "rec_of ''r1'' ''Standup''" 1 saved_world "''r1''" ConnectionError
        "[]" 0 JNull ConnectionError]
  from t1 h1 h2 h3
  have r1: "process_recording flaky (JNum 0) (rec_of ''r1'' ''Standup'') 1 empty_world
        = (Inr (),
           print (ErrorMsg ConnectionError)
             (print (Processing (0 + 1)
                (get_default (rec_of ''r1'' ''Standup'') ''title'' (JStr ''Untitled'')))
                empty_world))"
    by blast
  have r1': "stdout (snd (process_recording flaky (JNum 0) (rec_of ''r1'' ''Standup'') 1 empty_world))
     = [Processing 1 (JStr ''Standup''), ErrorMsg ConnectionError]"
    unfolding r1 by (simp add: print_def empty_world_def rec_of_def get_default_def)
  from t1 have r2: "fst (for_recordings (process_recording flaky (JNum 0))
          [rec_of ''r1'' ''Standup'', rec_of ''r2'' ''Retro''] 0 empty_world) = Inr 2"
    by (simp del: for_recordings.simps)
  from t2 h4
  have r3: "main_try offline (JNum 0) JNull saved_world
        = (Inl ConnectionError,
           print (ErrorDuringProcessing ConnectionError) (print (FetchingPage 1) saved_world))"
    by blast
  have r3a: "fst (main_try offline (JNum 0) JNull saved_world) = Inl ConnectionError"
    unfolding r3 by simp
  have r3b: "cursor_file (snd (main_try offline (JNum 0) JNull saved_world)) = cursor_file saved_world"
    unfolding r3 by (simp add: print_def cursor_file_def)
  from h1 h2 h3 r1' r2 h4 r3a r3b show ?thesis by blast
qed

text \<open>
  C6. When the detail request for a record of a page answers 404, the handler prints
  the record's line and the error and nothing else changes; the loop over the page is
  not aborted and goes on with the records that follow, and every record of the page
  is counted. The same holds for every other exception of the detail request.
\<close>

theorem C6_not_found_is_skipped:
  assumes "rid r = Some ri"
    and "existing_download en
           (print (Processing (sc + (n + 1)) (get_default r ''title'' (JStr ''Untitled''))) w) ri
           (get_or_None r ''start_datetime'') = None"
    and "get_recording en ri = Inl (HTTPError 404)"
  shows "for_recordings (process_recording en (JNum sc)) (r # rest) n w
           = for_recordings (process_recording en (JNum sc)) rest (n + 1)
               (print (ErrorMsg (HTTPError 404))
                  (print (Processing (sc + (n + 1))
                     (get_default r ''title'' (JStr ''Untitled''))) w)) \<and>
         fst (for_recordings (process_recording en (JNum sc)) (r # rest) n w)
           = Inr (n + 1 + int (length rest))"
proof -
  from assms
  have step: "process_recording en (JNum sc) r (n + 1) w
        = (Inr (),
           print (ErrorMsg (HTTPError 404))
             (print (Processing (sc + (n + 1))
                (get_default r ''title'' (JStr ''Untitled''))) w))"
    by (simp add: process_recording_def process_recording_try_def Let_def)
  then have a: "for_recordings (process_recording en (JNum sc)) (r # rest) n w
           = for_recordings (process_recording en (JNum sc)) rest (n + 1)
               (print (ErrorMsg (HTTPError 404))
                  (print (Processing (sc + (n + 1))
                     (get_default r ''title'' (JStr ''Untitled''))) w))"
    by simp
  have b: "fst (for_recordings (process_recording en (JNum sc)) (r # rest) n w)
           = Inr (n + 1 + int (length rest))"
    using for_recordings_total [of en sc "r # rest" n w] by simp
  from a b show ?thesis by blast
qed

theorem C6_not_found_is_skipped_witness:
  "rid (rec_of ''r4'' ''Gone'') = Some ''r4'' \<and>
   get_recording three_pages ''r4'' = Inl (HTTPError 404) \<and>
   fst (for_recordings (process_recording three_pages (JNum 0))
          [rec_of ''r4'' ''Gone'', rec_of ''r2'' ''Retro''] 0 empty_world) = Inr 2 \<and>
   stdout (snd (for_recordings (process_recording three_pages (JNum 0))
                  [rec_of ''r4'' ''Gone'', rec_of ''r2'' ''Retro''] 0 empty_world))
     = [Processing 1 (JStr ''Gone''), ErrorMsg (HTTPError 404), Processing 2 (JStr ''Retro''),
        SavedFile ''recordings/2024/03/05/r2_Retro.json'']"
proof -
  have h1: "rid (rec_of ''r4'' ''Gone'') = Some ''r4''"
    by (simp add: rec_of_def)
  have h2: "existing_download three_pages
           (print (Processing (0 + (0 + 1))
              (get_default (rec_of ''r4'' ''Gone'') ''title'' (JStr ''Untitled''))) empty_world)
           ''r4'' (get_or_None (rec_of ''r4'' ''Gone'') ''start_datetime'') = None"
    by (simp add: run_defs fixture_defs)
  have h3: "get_recording three_pages ''r4'' = Inl (HTTPError 404)"
    by (simp add: get_recording_def three_pages_def)
  note t = C6_not_found_is_skipped
    [of "rec_of ''r4'' ''Gone''" "''r4''" three_pages 0 0 empty_world "[rec_of ''r2'' ''Retro'']",
     OF h1 h2 h3]
  have a: "fst (for_recordings (process_recording three_pages (JNum 0))
          [rec_of ''r4'' ''Gone'', rec_of ''r2'' ''Retro''] 0 empty_world) = Inr 2"
    using conjunct2 [OF t] by (simp del: for_recordings.simps)
  have b: "stdout (snd (for_recordings (process_recording three_pages (JNum 0))
                  [rec_of ''r4'' ''Gone'', rec_of ''r2'' ''Retro''] 0 empty_world))
     = [Processing 1 (JStr ''Gone''), ErrorMsg (HTTPError 404), Processing 2 (JStr ''Retro''),
        SavedFile ''recordings/2024/03/05/r2_Retro.json'']"
    unfolding conjunct1 [OF t] by (simp add: run_defs fixture_defs)
  from h1 h3 a b show ?thesis by blast
qed

section \<open>The existence check\<close>

text \<open>
  C5, as the specification states it, fails. With no \<open>start_datetime\<close> the code does
  not look into the flat root: the look is made only under \<open>if start_datetime_str\<close>. The
  file of \<open>r1\<close> lies in the root, the specification's check finds it, the code's check
  finds nothing and the record is fetched and written again.
\<close>

theorem C5_no_flat_root_fallback:
  "\<not> truthy (get_or_None rec_undated ''start_datetime'') \<and>
   listdir world_flat ''recordings'' = Some [''r1_Standup.json''] \<and>
   spec_alreadyPersisted undated_source world_flat ''recordings'' ''r1''
     (get_or_None rec_undated ''start_datetime'') \<and>
   existing_download undated_source world_flat ''r1''
     (get_or_None rec_undated ''start_datetime'') = None \<and>
   stdout (snd (process_recording undated_source (JNum 0) rec_undated 1 world_flat))
     = [Processing 1 (JStr ''Standup''), SavedFile ''recordings/r1_Standup.json'']"
proof -
  have a: "\<not> truthy (get_or_None rec_undated ''start_datetime'')"
    by (simp add: run_defs fixture_defs)
  have b: "listdir world_flat ''recordings'' = Some [''r1_Standup.json'']"
    by (simp add: run_defs fixture_defs)
  have c: "spec_alreadyPersisted undated_source world_flat ''recordings'' ''r1''
     (get_or_None rec_undated ''start_datetime'')"
    by (simp add: spec_alreadyPersisted_def run_defs fixture_defs)
  have d: "existing_download undated_source world_flat ''r1''
     (get_or_None rec_undated ''start_datetime'') = None"
    by (simp add: run_defs fixture_defs)
  have e: "stdout (snd (process_recording undated_source (JNum 0) rec_undated 1 world_flat))
     = [Processing 1 (JStr ''Standup''), SavedFile ''recordings/r1_Standup.json'']"
    by (simp add: run_defs fixture_defs)
  from a b c d e show ?thesis by blast
qed

text \<open>
  C5, amended. The look is made when \<open>start_datetime\<close> is true and parses, the root
  \<open>recordings\<close> exists and the date directory can be listed. It then finds a download
  whenever the directory lists a name prefixed with the id followed by \<open>_\<close>, and finds
  none when the directory lists no name that starts with the id; what it finds is a
  name of that directory, given under year, month and day. When \<open>start_datetime\<close> is
  absent, empty or does not parse, when the root does not exist or when the date
  directory cannot be listed, the look is skipped and finds nothing: there is no
  fallback to the flat root, and this is no error, the look has no failing outcome.
\<close>

theorem C5_existing_download_found:
  "(truthy sd \<and> path_exists w ''recordings'' \<and> parse_start en sd = Some dt \<and>
    listdir w (date_dir ''recordings'' dt) = Some names \<longrightarrow>
      (list_ex (\<lambda>f. startswith f (i @ ''_'')) names \<longrightarrow> existing_download en w i sd \<noteq> None) \<and>
      (\<not> list_ex (\<lambda>f. startswith f i) names \<longrightarrow> existing_download en w i sd = None) \<and>
      (existing_download en w i sd = Some p \<longrightarrow>
         (\<exists>f. f \<in> set names \<and>
              p = os_path_join (str_nat (year dt)) [fmt_02d (month dt), fmt_02d (day dt), f]))) \<and>
   (\<not> truthy sd \<or> parse_start en sd = None \<or> \<not> path_exists w ''recordings'' \<longrightarrow>
      existing_download en w i sd = None) \<and>
   (parse_start en sd = Some dt \<and> listdir w (date_dir ''recordings'' dt) = None \<longrightarrow>
      existing_download en w i sd = None)"
proof -
  have a: "truthy sd \<and> path_exists w ''recordings'' \<and> parse_start en sd = Some dt \<and>
    listdir w (date_dir ''recordings'' dt) = Some names \<longrightarrow>
      (list_ex (\<lambda>f. startswith f (i @ ''_'')) names \<longrightarrow> existing_download en w i sd \<noteq> None) \<and>
      (\<not> list_ex (\<lambda>f. startswith f i) names \<longrightarrow> existing_download en w i sd = None) \<and>
      (existing_download en w i sd = Some p \<longrightarrow>
         (\<exists>f. f \<in> set names \<and>
              p = os_path_join (str_nat (year dt)) [fmt_02d (month dt), fmt_02d (day dt), f]))"
  proof
    assume h: "truthy sd \<and> path_exists w ''recordings'' \<and> parse_start en sd = Some dt \<and>
      listdir w (date_dir ''recordings'' dt) = Some names"
    then have ex: "path_exists w (date_dir ''recordings'' dt)"
      by (simp add: listdir_exists)
    let ?g = "\<lambda>f. os_path_join (str_nat (year dt)) [fmt_02d (month dt), fmt_02d (day dt), f]"
    from h ex have ed: "existing_download en w i sd
        = (case filter (\<lambda>f. startswith f i) names of [] \<Rightarrow> None | f # x \<Rightarrow> Some (?g f))"
      by (simp add: existing_download_def Let_def)
    have found: "(existing_download en w i sd \<noteq> None) = list_ex (\<lambda>f. startswith f i) names"
      unfolding ed by (rule first_match)
    have 1: "list_ex (\<lambda>f. startswith f (i @ ''_'')) names \<longrightarrow> existing_download en w i sd \<noteq> None"
    proof
      assume "list_ex (\<lambda>f. startswith f (i @ ''_'')) names"
      then have "list_ex (\<lambda>f. startswith f i) names"
        by (auto simp: list_ex_iff dest: startswith_longer)
      with found show "existing_download en w i sd \<noteq> None"
        by blast
    qed
    from found
    have 2: "\<not> list_ex (\<lambda>f. startswith f i) names \<longrightarrow> existing_download en w i sd = None"
      by blast
    have 3: "existing_download en w i sd = Some p \<longrightarrow> (\<exists>f. f \<in> set names \<and> p = ?g f)"
    proof
      assume "existing_download en w i sd = Some p"
      then have "(case filter (\<lambda>f. startswith f i) names of [] \<Rightarrow> None | f # x \<Rightarrow> Some (?g f))
                   = Some p"
        unfolding ed .
      from first_match_Some [OF this] show "\<exists>f. f \<in> set names \<and> p = ?g f"
        by blast
    qed
    from 1 2 3
    show "(list_ex (\<lambda>f. startswith f (i @ ''_'')) names \<longrightarrow> existing_download en w i sd \<noteq> None) \<and>
      (\<not> list_ex (\<lambda>f. startswith f i) names \<longrightarrow> existing_download en w i sd = None) \<and>
      (existing_download en w i sd = Some p \<longrightarrow> (\<exists>f. f \<in> set names \<and> p = ?g f))"
      by blast
  qed
  have b: "\<not> truthy sd \<or> parse_start en sd = None \<or> \<not> path_exists w ''recordings'' \<longrightarrow>
      existing_download en w i sd = None"
    by (auto simp: existing_download_def)
  have c: "parse_start en sd = Some dt \<and> listdir w (date_dir ''recordings'' dt) = None \<longrightarrow>
      existing_download en w i sd = None"
    by (auto simp: existing_download_def Let_def)
  from a b c show ?thesis by blast
qed

theorem C5_existing_download_found_witness:
  "truthy (JStr ''2024-03-05T10:00:00Z'') \<and>
   path_exists world_dated ''recordings'' \<and>
   parse_start three_pages (JStr ''2024-03-05T10:00:00Z'')
     = Some \<lparr>year = 2024, month = 3, day = 5\<rparr> \<and>
   listdir world_dated (date_dir ''recordings'' \<lparr>year = 2024, month = 3, day = 5\<rparr>)
     = Some [''r10_Retro.json''] \<and>
   list_ex (\<lambda>f. startswith f (''r10'' @ ''_'')) [''r10_Retro.json''] \<and>
   existing_download three_pages world_dated ''r10'' (JStr ''2024-03-05T10:00:00Z'') \<noteq> None \<and>
   \<not> list_ex (\<lambda>f. startswith f ''r2'') [''r10_Retro.json''] \<and>
   existing_download three_pages world_dated ''r2'' (JStr ''2024-03-05T10:00:00Z'') = None \<and>
   \<not> truthy JNull \<and>
   existing_download three_pages world_dated ''r10'' JNull = None \<and>
   listdir empty_world (date_dir ''recordings'' \<lparr>year = 2024, month = 3, day = 5\<rparr>) = None \<and>
   existing_download three_pages empty_world ''r10'' (JStr ''2024-03-05T10:00:00Z'') = None"
proof -
  let ?dt = "\<lparr>year = 2024, month = 3, day = 5\<rparr>"
  let ?sd = "JStr ''2024-03-05T10:00:00Z''"
  have h1: "truthy ?sd" by simp
  have h2: "path_exists world_dated ''recordings''"
    by (simp add: run_defs fixture_defs)
  have h3: "parse_start three_pages ?sd = Some ?dt"
    by (simp add: parse_start_def replace_Z_def three_pages_def parse_fixture_def)
  have h4: "listdir world_dated (date_dir ''recordings'' ?dt) = Some [''r10_Retro.json'']"
    by (simp add: run_defs fixture_defs)
  have h5: "list_ex (\<lambda>f. startswith f (''r10'' @ ''_'')) [''r10_Retro.json'']"
    by (simp add: startswith_def)
  have h6: "\<not> list_ex (\<lambda>f. startswith f ''r2'') [''r10_Retro.json'']"
    by (simp add: startswith_def)
  have h7: "\<not> truthy JNull" by simp
  have h8: "listdir empty_world (date_dir ''recordings'' ?dt) = None"
    by (simp add: run_defs fixture_defs)
  note t1 = C5_existing_download_found
    [where en = three_pages and w = world_dated and i = "''r10''" and sd = ?sd and dt = ?dt
       and names = "[''r10_Retro.json'']"]
  note t2 = C5_existing_download_found
    [where en = three_pages and w = world_dated and i = "''r2''" and sd = ?sd and dt = ?dt
       and names = "[''r10_Retro.json'']"]
  note t3 = C5_existing_download_found
    [where en = three_pages and w = world_dated and i = "''r10''" and sd = JNull]
  note t4 = C5_existing_download_found
    [where en = three_pages and w = empty_world and i = "''r10''" and sd = ?sd and dt = ?dt]
  from t1 h1 h2 h3 h4 h5
  have r1: "existing_download three_pages world_dated ''r10'' ?sd \<noteq> None"
    by blast
  from t2 h1 h2 h3 h4 h6
  have r2: "existing_download three_pages world_dated ''r2'' ?sd = None"
    by blast
  from t3 h7 have r3: "existing_download three_pages world_dated ''r10'' JNull = None"
    by blast
  from t4 h3 h8 have r4: "existing_download three_pages empty_world ''r10'' ?sd = None"
    by blast
  from h1 h2 h3 h4 h5 r1 h6 r2 h7 r3 h8 r4 show ?thesis by blast
qed

text \<open>
  The look compares with the bare id (\<open>f.startswith(recording_id)\<close>), where the
  specification asks for the id followed by \<open>_\<close>. With the file of \<open>r10\<close> in the date
  directory, the look for \<open>r1\<close> reports that file and \<open>r1\<close> is not fetched, while the
  specification's check finds no download of \<open>r1\<close>.
\<close>

lemma bare_id_matches_longer_id:
  "existing_download three_pages world_dated ''r1'' (JStr ''2024-03-05T10:00:00Z'')
     = Some ''2024/03/05/r10_Retro.json'' \<and>
   \<not> spec_alreadyPersisted three_pages world_dated ''recordings'' ''r1''
       (JStr ''2024-03-05T10:00:00Z'') \<and>
   stdout (snd (process_recording three_pages (JNum 0) (rec_of ''r1'' ''Standup'') 1 world_dated))
     = [Processing 1 (JStr ''Standup''), AlreadyDownloaded ''2024/03/05/r10_Retro.json'']"
proof -
  have a: "existing_download three_pages world_dated ''r1'' (JStr ''2024-03-05T10:00:00Z'')
     = Some ''2024/03/05/r10_Retro.json''"
    by (simp add: run_defs fixture_defs)
  have b: "\<not> spec_alreadyPersisted three_pages world_dated ''recordings'' ''r1''
       (JStr ''2024-03-05T10:00:00Z'')"
    by (simp add: spec_alreadyPersisted_def run_defs fixture_defs)
  have c: "stdout (snd (process_recording three_pages (JNum 0) (rec_of ''r1'' ''Standup'') 1
                          world_dated))
     = [Processing 1 (JStr ''Standup''), AlreadyDownloaded ''2024/03/05/r10_Retro.json'']"
    by (simp add: run_defs fixture_defs)
  from a b c show ?thesis by blast
qed

section \<open>The file name\<close>

text \<open>
  C7, as the specification states it, fails. \<open>str.isalnum\<close> accepts letters and digits
  beyond ASCII, so the title \<open>Caf\<close> followed by U+00E9 keeps its last character, which
  is outside \<open>[A-Za-z0-9 _-]\<close>. And the title is stripped on the right only: a leading
  space stays.
\<close>

theorem C7_component_outside_class:
  "sanitize (''Caf'' @ [CHR 0xE9]) = ''Caf'' @ [CHR 0xE9] \<and>
   \<not> in_spec_class (CHR 0xE9) \<and>
   \<not> list_all in_spec_class (sanitize (''Caf'' @ [CHR 0xE9])) \<and>
   sanitize '' Plan'' = '' Plan''"
proof -
  have a: "sanitize (''Caf'' @ [CHR 0xE9]) = ''Caf'' @ [CHR 0xE9]"
    by (simp add: sanitize_def rstrip_def keep_char_def isalnum_def isspace_def)
  have b: "\<not> in_spec_class (CHR 0xE9)"
    by (simp add: in_spec_class_def)
  have c: "\<not> list_all in_spec_class (sanitize (''Caf'' @ [CHR 0xE9]))"
    unfolding a by (simp add: in_spec_class_def)
  have d: "sanitize '' Plan'' = '' Plan''"
    by (simp add: sanitize_def rstrip_def keep_char_def isalnum_def isspace_def)
  from a b c d show ?thesis by blast
qed

text \<open>
  C7, amended. For every title string, each character of the component is
  alphanumeric in the sense of \<open>str.isalnum\<close> or a space, a hyphen or an underscore; when
  the title is ASCII, that is the class \<open>[A-Za-z0-9 _-]\<close>. The component has at most 50
  characters. White space is stripped on the right before the cut, so a component
  that was not cut does not end in white space. The title \<open>Q1 Review: Eng/Product!!\<close>
  yields \<open>Q1 Review EngProduct\<close>.
\<close>

theorem C7_sanitized_title:
  "(\<forall>c \<in> set (sanitize title). isalnum c \<or> c = CHR '' '' \<or> c = CHR ''-'' \<or> c = CHR ''_'') \<and>
   ((\<forall>c \<in> set title. (of_char c :: nat) < 128) \<longrightarrow>
      (\<forall>c \<in> set (sanitize title). in_spec_class c)) \<and>
   length (sanitize title) \<le> 50 \<and>
   (length (filter keep_char title) \<le> 50 \<and> sanitize title \<noteq> [] \<longrightarrow>
      \<not> isspace (last (sanitize title))) \<and>
   sanitize ''Q1 Review: Eng/Product!!'' = ''Q1 Review EngProduct''"
proof -
  have a: "\<forall>c \<in> set (sanitize title).
             isalnum c \<or> c = CHR '' '' \<or> c = CHR ''-'' \<or> c = CHR ''_''"
    using sanitize_subset [of title] by (auto simp: keep_char_def)
  have b: "(\<forall>c \<in> set title. (of_char c :: nat) < 128) \<longrightarrow>
      (\<forall>c \<in> set (sanitize title). in_spec_class c)"
    using sanitize_subset [of title] keep_char_ascii by blast
  have c: "length (sanitize title) \<le> 50"
    by (simp add: sanitize_def)
  have d: "length (filter keep_char title) \<le> 50 \<and> sanitize title \<noteq> [] \<longrightarrow>
      \<not> isspace (last (sanitize title))"
    using rstrip_last [of "filter keep_char title"] sanitize_uncut [of title] by auto
  have e: "sanitize ''Q1 Review: Eng/Product!!'' = ''Q1 Review EngProduct''"
    by (simp add: sanitize_def rstrip_def keep_char_def isalnum_def isspace_def)
  from a b c d e show ?thesis by blast
qed

theorem C7_sanitized_title_witness:
  "list_all (\<lambda>c. (of_char c :: nat) < 128) ''Q1 Review: Eng/Product!!'' \<and>
   length (filter keep_char ''Q1 Review: Eng/Product!!'') \<le> 50 \<and>
   sanitize ''Q1 Review: Eng/Product!!'' \<noteq> [] \<and>
   list_all in_spec_class (sanitize ''Q1 Review: Eng/Product!!'') \<and>
   length (sanitize ''Q1 Review: Eng/Product!!'') \<le> 50 \<and>
   \<not> isspace (last (sanitize ''Q1 Review: Eng/Product!!''))"
proof -
  have h1: "list_all (\<lambda>c. (of_char c :: nat) < 128) ''Q1 Review: Eng/Product!!''"
    by simp
  have h2: "length (filter keep_char ''Q1 Review: Eng/Product!!'') \<le> 50"
    by (simp add: keep_char_def isalnum_def)
  note t = C7_sanitized_title [of "''Q1 Review: Eng/Product!!''"]
  from t have h3: "sanitize ''Q1 Review: Eng/Product!!'' \<noteq> []"
    by auto
  from t h1 have r1: "list_all in_spec_class (sanitize ''Q1 Review: Eng/Product!!'')"
    unfolding list_all_iff by blast
  from t have r2: "length (sanitize ''Q1 Review: Eng/Product!!'') \<le> 50"
    by blast
  from t h2 h3 have r3: "\<not> isspace (last (sanitize ''Q1 Review: Eng/Product!!''))"
    by blast
  from h1 h2 h3 r1 r2 r3 show ?thesis by blast
qed

section \<open>The date partition\<close>

text \<open>
  C8, as the specification states it, fails. The file name starts with the id as the
  listing gave it, and the directory is joined with that name by \<open>os.path.join\<close>. The
  recording \<open>../x\<close> of 5 March 2024 is written to \<open>recordings/2024/03/x_Standup.json\<close>: the
  directory \<open>recordings/2024/03/05\<close> is created and stays empty. The recording \<open>/x\<close> of
  the same day is written to \<open>/x_Standup.json\<close>, outside the root.
\<close>

theorem C8_file_outside_partition:
  "fst (date_path_of three_pages (rec_of ''../x'' ''Standup'') ''recordings'' empty_world)
     = ''recordings/2024/03/05'' \<and>
   fst (save_recording_to_json three_pages (rec_of ''../x'' ''Standup'') ''recordings'' empty_world)
     = Inr ''recordings/2024/03/05/../x_Standup.json'' \<and>
   files (snd (save_recording_to_json three_pages (rec_of ''../x'' ''Standup'') ''recordings''
                 empty_world)) ''recordings/2024/03/x_Standup.json''
     = Some (Json (output_data ''../x'' (rec_of ''../x'' ''Standup''))) \<and>
   listdir (snd (save_recording_to_json three_pages (rec_of ''../x'' ''Standup'') ''recordings''
                   empty_world)) ''recordings/2024/03/05'' = Some [] \<and>
   listdir (snd (save_recording_to_json three_pages (rec_of ''../x'' ''Standup'') ''recordings''
                   empty_world)) ''recordings/2024/03'' = Some [''05'', ''x_Standup.json''] \<and>
   fst (save_recording_to_json three_pages (rec_of ''/x'' ''Standup'') ''recordings'' empty_world)
     = Inr ''/x_Standup.json'' \<and>
   files (snd (save_recording_to_json three_pages (rec_of ''/x'' ''Standup'') ''recordings''
                 empty_world)) ''/x_Standup.json''
     = Some (Json (output_data ''/x'' (rec_of ''/x'' ''Standup''))) \<and>
   listdir (snd (save_recording_to_json three_pages (rec_of ''/x'' ''Standup'') ''recordings''
                   empty_world)) ''recordings/2024/03/05'' = Some []"
proof -
  have 1: "fst (date_path_of three_pages (rec_of ''../x'' ''Standup'') ''recordings'' empty_world)
     = ''recordings/2024/03/05''"
    by (simp add: run_defs fixture_defs)
  have 2: "fst (save_recording_to_json three_pages (rec_of ''../x'' ''Standup'') ''recordings''
                  empty_world)
     = Inr ''recordings/2024/03/05/../x_Standup.json''"
    by (simp add: run_defs fixture_defs)
  have 3: "files (snd (save_recording_to_json three_pages (rec_of ''../x'' ''Standup'')
                         ''recordings'' empty_world)) ''recordings/2024/03/x_Standup.json''
     = Some (Json (output_data ''../x'' (rec_of ''../x'' ''Standup'')))"
    by (simp add: run_defs fixture_defs)
  have 4: "listdir (snd (save_recording_to_json three_pages (rec_of ''../x'' ''Standup'')
                           ''recordings'' empty_world)) ''recordings/2024/03/05'' = Some []"
    by (simp add: run_defs fixture_defs)
  have 5: "listdir (snd (save_recording_to_json three_pages (rec_of ''../x'' ''Standup'')
                           ''recordings'' empty_world)) ''recordings/2024/03''
     = Some [''05'', ''x_Standup.json'']"
    by (simp add: run_defs fixture_defs)
  have 6: "fst (save_recording_to_json three_pages (rec_of ''/x'' ''Standup'') ''recordings''
                  empty_world)
     = Inr ''/x_Standup.json''"
    by (simp add: run_defs fixture_defs)
  have 7: "files (snd (save_recording_to_json three_pages (rec_of ''/x'' ''Standup'')
                         ''recordings'' empty_world)) ''/x_Standup.json''
     = Some (Json (output_data ''/x'' (rec_of ''/x'' ''Standup'')))"
    by (simp add: run_defs fixture_defs)
  have 8: "listdir (snd (save_recording_to_json three_pages (rec_of ''/x'' ''Standup'')
                           ''recordings'' empty_world)) ''recordings/2024/03/05'' = Some []"
    by (simp add: run_defs fixture_defs)
  from 1 2 3 4 5 6 7 8 show ?thesis by blast
qed

text \<open>
  C8, amended. When \<open>start_datetime\<close> is true and parses to a date, the directory of the
  artifact is the root joined with the year, the month and the day, the year in decimal
  (four digits from the year 1000 on), the month and the day written with two digits,
  zero-padded; under a root that is not empty and does not end in a separator this is
  \<open>root/YYYY/MM/DD\<close>. When \<open>start_datetime\<close> is absent, empty or does not parse, the
  directory is the root itself. A save that succeeds has created that directory and
  written the projection of the recording at the directory joined with the file name;
  for a recording whose id contains no separator, that is the file of that name in that
  directory. With the date \<open>2024-03-05T10:00:00Z\<close> the directory under \<open>recordings\<close> is
  \<open>recordings/2024/03/05\<close>.
\<close>

theorem C8_date_partition:
  "(truthy (get_or_None rd ''start_datetime'') \<and>
    parse_start en (get_or_None rd ''start_datetime'') = Some dt \<longrightarrow>
      fst (date_path_of en rd root w)
        = os_path_join root [str_nat (year dt), fmt_02d (month dt), fmt_02d (day dt)] \<and>
      (root \<noteq> [] \<and> last root \<noteq> CHR ''/'' \<longrightarrow>
         fst (date_path_of en rd root w)
           = root @ ''/'' @ str_nat (year dt) @ ''/'' @ fmt_02d (month dt) @ ''/''
               @ fmt_02d (day dt))) \<and>
   (1000 \<le> n \<and> n < 10000 \<longrightarrow> length (str_nat n) = 4) \<and>
   (n < 10 \<longrightarrow> fmt_02d n = [CHR ''0'', digit n]) \<and>
   (n < 100 \<longrightarrow> length (fmt_02d n) = 2) \<and>
   (\<not> truthy (get_or_None rd ''start_datetime'') \<or>
    parse_start en (get_or_None rd ''start_datetime'') = None \<longrightarrow>
      fst (date_path_of en rd root w) = root) \<and>
   (save_recording_to_json en rd root w = (Inr path, w') \<longrightarrow>
      (\<exists>i st ld.
         rid rd = Some i \<and>
         safe_title (get_default rd ''title'' (JStr ''Untitled'')) = Inr st \<and>
         path = os_path_join (fst (date_path_of en rd root w)) [i @ ''_'' @ st @ ''.json''] \<and>
         resolve w' (fst (date_path_of en rd root w)) = Some ld \<and>
         is_dir w' ld \<and>
         read_json w' path = Inr (output_data i rd) \<and>
         (CHR ''/'' \<notin> set i \<longrightarrow>
            resolve w' path = Some (fst ld, snd ld @ [i @ ''_'' @ st @ ''.json'']) \<and>
            (root \<noteq> [] \<and> last root \<noteq> CHR ''/'' \<longrightarrow>
               path = fst (date_path_of en rd root w) @ ''/'' @ i @ ''_'' @ st @ ''.json'')))) \<and>
   (fromisoformat en ''2024-03-05T10:00:00+00:00'' = Some \<lparr>year = 2024, month = 3, day = 5\<rparr> \<and>
    attrs rd ''start_datetime'' = Some (JStr ''2024-03-05T10:00:00Z'') \<longrightarrow>
      fst (date_path_of en rd ''recordings'' w) = ''recordings/2024/03/05'')"
proof -
  have a: "truthy (get_or_None rd ''start_datetime'') \<and>
    parse_start en (get_or_None rd ''start_datetime'') = Some dt \<longrightarrow>
      fst (date_path_of en rd root w)
        = os_path_join root [str_nat (year dt), fmt_02d (month dt), fmt_02d (day dt)] \<and>
      (root \<noteq> [] \<and> last root \<noteq> CHR ''/'' \<longrightarrow>
         fst (date_path_of en rd root w)
           = root @ ''/'' @ str_nat (year dt) @ ''/'' @ fmt_02d (month dt) @ ''/''
               @ fmt_02d (day dt))"
  proof (intro impI)
    assume h: "truthy (get_or_None rd ''start_datetime'') \<and>
      parse_start en (get_or_None rd ''start_datetime'') = Some dt"
    then have dp: "fst (date_path_of en rd root w) = date_dir root dt"
      by (simp add: date_path_of_def Let_def)
    have 1: "fst (date_path_of en rd root w)
        = os_path_join root [str_nat (year dt), fmt_02d (month dt), fmt_02d (day dt)]"
      unfolding dp by (simp add: date_dir_def)
    have 2: "root \<noteq> [] \<and> last root \<noteq> CHR ''/'' \<longrightarrow>
         fst (date_path_of en rd root w)
           = root @ ''/'' @ str_nat (year dt) @ ''/'' @ fmt_02d (month dt) @ ''/''
               @ fmt_02d (day dt)"
      unfolding dp using date_dir_plain [of root dt] by blast
    from 1 2 show "fst (date_path_of en rd root w)
        = os_path_join root [str_nat (year dt), fmt_02d (month dt), fmt_02d (day dt)] \<and>
      (root \<noteq> [] \<and> last root \<noteq> CHR ''/'' \<longrightarrow>
         fst (date_path_of en rd root w)
           = root @ ''/'' @ str_nat (year dt) @ ''/'' @ fmt_02d (month dt) @ ''/''
               @ fmt_02d (day dt))"
      by blast
  qed
  have y: "1000 \<le> n \<and> n < 10000 \<longrightarrow> length (str_nat n) = 4"
    by (rule str_nat_four)
  have b: "(n < 10 \<longrightarrow> fmt_02d n = [CHR ''0'', digit n]) \<and> (n < 100 \<longrightarrow> length (fmt_02d n) = 2)"
    by (rule fmt_02d_padded)
  have c: "\<not> truthy (get_or_None rd ''start_datetime'') \<or>
    parse_start en (get_or_None rd ''start_datetime'') = None \<longrightarrow>
      fst (date_path_of en rd root w) = root"
    by (auto simp: date_path_of_def Let_def)
  have d: "save_recording_to_json en rd root w = (Inr path, w') \<longrightarrow>
      (\<exists>i st ld.
         rid rd = Some i \<and>
         safe_title (get_default rd ''title'' (JStr ''Untitled'')) = Inr st \<and>
         path = os_path_join (fst (date_path_of en rd root w)) [i @ ''_'' @ st @ ''.json''] \<and>
         resolve w' (fst (date_path_of en rd root w)) = Some ld \<and>
         is_dir w' ld \<and>
         read_json w' path = Inr (output_data i rd) \<and>
         (CHR ''/'' \<notin> set i \<longrightarrow>
            resolve w' path = Some (fst ld, snd ld @ [i @ ''_'' @ st @ ''.json'']) \<and>
            (root \<noteq> [] \<and> last root \<noteq> CHR ''/'' \<longrightarrow>
               path = fst (date_path_of en rd root w) @ ''/'' @ i @ ''_'' @ st @ ''.json'')))"
  proof
    assume "save_recording_to_json en rd root w = (Inr path, w')"
    from save_recording_to_json_Inr [OF this] obtain i st ld l where
      i: "rid rd = Some i" and
      st: "safe_title (get_default rd ''title'' (JStr ''Untitled'')) = Inr st" and
      path: "path = os_path_join (fst (date_path_of en rd root w)) [i @ ''_'' @ st @ ''.json'']" and
      ld: "resolve w' (fst (date_path_of en rd root w)) = Some ld" and
      dir: "is_dir w' ld" and
      l: "resolve w' path = Some l" and
      fl: "files w' (key l) = Some (Json (output_data i rd))"
      by blast
    let ?dp = "fst (date_path_of en rd root w)"
    let ?fn = "i @ ''_'' @ st @ ''.json''"
    have j: "path = join2 ?dp ?fn"
      unfolding path by (simp add: os_path_join_def)
    from l fl have rd: "read_json w' path = Inr (output_data i rd)"
      by (simp add: read_json_def)
    have inside: "CHR ''/'' \<notin> set i \<longrightarrow>
            resolve w' path = Some (fst ld, snd ld @ [?fn]) \<and>
            (root \<noteq> [] \<and> last root \<noteq> CHR ''/'' \<longrightarrow> path = ?dp @ ''/'' @ ?fn)"
    proof
      assume ni: "CHR ''/'' \<notin> set i"
      from st have "CHR ''/'' \<notin> set st"
        by (rule safe_title_no_slash)
      with ni have fn: "CHR ''/'' \<notin> set ?fn" "?fn \<noteq> []" "?fn \<noteq> ''.''" "?fn \<noteq> ''..''"
        using filename_is_name [of i st] by blast+
      have 1: "resolve w' path = Some (fst ld, snd ld @ [?fn])"
        unfolding j using ld dir fn by (rule resolve_join2)
      have 2: "root \<noteq> [] \<and> last root \<noteq> CHR ''/'' \<longrightarrow> path = ?dp @ ''/'' @ ?fn"
      proof
        assume h: "root \<noteq> [] \<and> last root \<noteq> CHR ''/''"
        with date_path_last [of root en rd w] have "?dp \<noteq> []" and "last ?dp \<noteq> CHR ''/''"
          by auto
        moreover from fn have "\<not> startswith ?fn ''/''"
          by (cases i) (auto simp: startswith_def)
        ultimately have "join2 ?dp ?fn = ?dp @ ''/'' @ ?fn"
          by (rule join2_plain)
        then show "path = ?dp @ ''/'' @ ?fn"
          unfolding j .
      qed
      from 1 2 show "resolve w' path = Some (fst ld, snd ld @ [?fn]) \<and>
            (root \<noteq> [] \<and> last root \<noteq> CHR ''/'' \<longrightarrow> path = ?dp @ ''/'' @ ?fn)"
        by blast
    qed
    from i st path ld dir rd inside
    show "\<exists>i st ld.
         rid rd = Some i \<and>
         safe_title (get_default rd ''title'' (JStr ''Untitled'')) = Inr st \<and>
         path = os_path_join ?dp [i @ ''_'' @ st @ ''.json''] \<and>
         resolve w' ?dp = Some ld \<and>
         is_dir w' ld \<and>
         read_json w' path = Inr (output_data i rd) \<and>
         (CHR ''/'' \<notin> set i \<longrightarrow>
            resolve w' path = Some (fst ld, snd ld @ [i @ ''_'' @ st @ ''.json'']) \<and>
            (root \<noteq> [] \<and> last root \<noteq> CHR ''/'' \<longrightarrow>
               path = ?dp @ ''/'' @ i @ ''_'' @ st @ ''.json''))"
      by blast
  qed
  have e: "fromisoformat en ''2024-03-05T10:00:00+00:00''
             = Some \<lparr>year = 2024, month = 3, day = 5\<rparr> \<and>
    attrs rd ''start_datetime'' = Some (JStr ''2024-03-05T10:00:00Z'') \<longrightarrow>
      fst (date_path_of en rd ''recordings'' w) = ''recordings/2024/03/05''"
    by (simp add: date_path_of_def get_or_None_def parse_start_def replace_Z_def date_dir_def
          os_path_join_def join2_def startswith_def fmt_02d_def str_nat.simps digit_def)
  from a y b c d e show ?thesis by blast
qed

theorem C8_date_partition_witness:
  "truthy (get_or_None (rec_of ''r1'' ''Standup'') ''start_datetime'') \<and>
   parse_start three_pages (get_or_None (rec_of ''r1'' ''Standup'') ''start_datetime'')
     = Some \<lparr>year = 2024, month = 3, day = 5\<rparr> \<and>
   fst (date_path_of three_pages (rec_of ''r1'' ''Standup'') ''recordings'' empty_world)
     = ''recordings/2024/03/05'' \<and>
   length (str_nat 2024) = 4 \<and>
   fmt_02d 3 = ''03'' \<and>
   \<not> truthy (get_or_None rec_undated ''start_datetime'') \<and>
   fst (date_path_of three_pages rec_undated ''recordings'' empty_world) = ''recordings'' \<and>
   fst (save_recording_to_json three_pages (rec_of ''r1'' ''Standup'') ''recordings'' empty_world)
     = Inr ''recordings/2024/03/05/r1_Standup.json'' \<and>
   CHR ''/'' \<notin> set ''r1'' \<and>
   read_json (snd (save_recording_to_json three_pages (rec_of ''r1'' ''Standup'') ''recordings''
                     empty_world)) ''recordings/2024/03/05/r1_Standup.json''
     = Inr (output_data ''r1'' (rec_of ''r1'' ''Standup'')) \<and>
   resolve (snd (save_recording_to_json three_pages (rec_of ''r1'' ''Standup'') ''recordings''
                   empty_world)) ''recordings/2024/03/05/r1_Standup.json''
     = Some (False, [''recordings'', ''2024'', ''03'', ''05'', ''r1_Standup.json''])"
proof -
  let ?rd = "rec_of ''r1'' ''Standup''"
  let ?dt = "\<lparr>year = 2024, month = 3, day = 5\<rparr>"
  let ?path = "''recordings/2024/03/05/r1_Standup.json''"
  let ?w' = "snd (save_recording_to_json three_pages ?rd ''recordings'' empty_world)"
  have h1: "truthy (get_or_None ?rd ''start_datetime'')"
    by (simp add: get_or_None_def rec_of_def)
  have h2: "parse_start three_pages (get_or_None ?rd ''start_datetime'') = Some ?dt"
    by (simp add: parse_start_def get_or_None_def rec_of_def replace_Z_def three_pages_def
          parse_fixture_def)
  have h3: "\<not> truthy (get_or_None rec_undated ''start_datetime'')"
    by (simp add: get_or_None_def rec_undated_def)
  have h4: "fst (save_recording_to_json three_pages ?rd ''recordings'' empty_world) = Inr ?path"
    by (simp add: run_defs fixture_defs)
  then have h5: "save_recording_to_json three_pages ?rd ''recordings'' empty_world
                   = (Inr ?path, ?w')"
    by (metis prod.collapse)
  have h6: "''recordings'' \<noteq> [] \<and> last ''recordings'' \<noteq> CHR ''/''"
    by simp
  have h7: "rid ?rd = Some ''r1''"
    by (simp add: rec_of_def)
  have h8: "CHR ''/'' \<notin> set ''r1''"
    by simp
  have h9: "safe_title (get_default ?rd ''title'' (JStr ''Untitled'')) = Inr ''Standup''"
    by (simp add: run_defs fixture_defs)
  have h10: "resolve ?w' ''recordings/2024/03/05''
               = Some (False, [''recordings'', ''2024'', ''03'', ''05''])"
    by (simp add: run_defs fixture_defs)
  have h11: "(1000::nat) \<le> 2024 \<and> (2024::nat) < 10000"
    by simp
  note t1 = C8_date_partition
    [where rd = ?rd and en = three_pages and dt = ?dt and root = "''recordings''"
       and w = empty_world and n = 3 and path = ?path and w' = ?w']
  note t2 = C8_date_partition
    [where rd = rec_undated and en = three_pages and dt = ?dt and root = "''recordings''"
       and w = empty_world and n = 2024 and path = ?path and w' = ?w']
  from t1 h1 h2 h6
  have "fst (date_path_of three_pages ?rd ''recordings'' empty_world)
          = ''recordings'' @ ''/'' @ str_nat (year ?dt) @ ''/'' @ fmt_02d (month ?dt) @ ''/''
              @ fmt_02d (day ?dt)"
    by blast
  then have r1: "fst (date_path_of three_pages ?rd ''recordings'' empty_world)
                   = ''recordings/2024/03/05''"
    by (simp add: fmt_02d_def str_nat.simps digit_def)
  from t1 have "(3::nat) < 10 \<longrightarrow> fmt_02d 3 = [CHR ''0'', digit 3]"
    by blast
  then have r2: "fmt_02d 3 = ''03''"
    by (simp add: digit_def)
  from t2 h11 have r2y: "length (str_nat 2024) = 4"
    by blast
  from t2 h3
  have r3: "fst (date_path_of three_pages rec_undated ''recordings'' empty_world) = ''recordings''"
    by blast
  from t1 h5 obtain i st ld where
    i: "rid ?rd = Some i" and
    st: "safe_title (get_default ?rd ''title'' (JStr ''Untitled'')) = Inr st" and
    ld: "resolve ?w' (fst (date_path_of three_pages ?rd ''recordings'' empty_world)) = Some ld" and
    rj: "read_json ?w' ?path = Inr (output_data i ?rd)" and
    ins: "CHR ''/'' \<notin> set i \<longrightarrow>
            resolve ?w' ?path = Some (fst ld, snd ld @ [i @ ''_'' @ st @ ''.json''])"
    by blast
  from i h7 have i1: "i = ''r1''"
    by simp
  from st h9 have st1: "st = ''Standup''"
    by simp
  from ld h10 have ld1: "ld = (False, [''recordings'', ''2024'', ''03'', ''05''])"
    unfolding r1 by simp
  from rj have r4: "read_json ?w' ?path = Inr (output_data ''r1'' ?rd)"
    unfolding i1 .
  from ins h8 have r5: "resolve ?w' ?path
      = Some (False, [''recordings'', ''2024'', ''03'', ''05'', ''r1_Standup.json''])"
    unfolding i1 st1 ld1 by simp
  from h1 h2 r1 r2y r2 h3 r3 h4 h8 r4 r5 show ?thesis by blast
qed

section \<open>Loading the checkpoint\<close>

text \<open>
  \<open>load_cursor_state\<close> returns \<open>None\<close> when there is no checkpoint file, and when the
  file cannot be read or parsed it prints a line and returns \<open>None\<close> as well. A file that
  parses is returned as \<open>json.load\<close> gives it, whatever it holds.
\<close>

lemma load_cursor_state_cases:
  "(\<not> path_exists w ''.cursor_state.json'' \<longrightarrow> load_cursor_state w = (JNull, w)) \<and>
   (path_exists w ''.cursor_state.json'' \<and> read_json w ''.cursor_state.json'' = Inl e \<longrightarrow>
      load_cursor_state w = (JNull, print ErrorLoadingCursor w)) \<and>
   (path_exists w ''.cursor_state.json'' \<and> read_json w ''.cursor_state.json'' = Inr v \<longrightarrow>
      load_cursor_state w = (v, w))"
  by (simp add: load_cursor_state_def)

text \<open>
  C9. The specification is right that a damaged checkpoint should count as absent and
  never be fatal, and \<open>load_cursor_state\<close> does so for a file that does not parse: the
  run over such a file ends normally. But a checkpoint that parses and is no
  checkpoint is returned as it is, with no line printed, and \<open>main\<close> subscripts it
  outside every \<open>try\<close>. With the file \<open>{"cursor": "c1"}\<close> the run ends with a \<open>KeyError\<close>
  at \<open>cursor_state['timestamp']\<close>, and with the file \<open>[1]\<close> with a \<open>TypeError\<close>, before
  any page is listed; the same run without a checkpoint file ends normally.
\<close>

theorem C9_damaged_checkpoint_is_fatal:
  "load_cursor_state corrupt_world = (JNull, print ErrorLoadingCursor corrupt_world) \<and>
   fst (main three_pages corrupt_world) = Inr () \<and>
   fst (main three_pages empty_world) = Inr () \<and>
   read_json incomplete_world ''.cursor_state.json'' = Inr (JObj [(''cursor'', JStr ''c1'')]) \<and>
   load_cursor_state incomplete_world = (JObj [(''cursor'', JStr ''c1'')], incomplete_world) \<and>
   main three_pages incomplete_world = (Inl KeyError, print FetchingAll incomplete_world) \<and>
   read_json listed_world ''.cursor_state.json'' = Inr (JList [JNum 1]) \<and>
   load_cursor_state listed_world = (JList [JNum 1], listed_world) \<and>
   main three_pages listed_world = (Inl TypeError, print FetchingAll listed_world)"
proof -
  have 1: "load_cursor_state corrupt_world = (JNull, print ErrorLoadingCursor corrupt_world)"
    by (simp add: run_defs fixture_defs)
  have 2: "fst (main three_pages corrupt_world) = Inr ()"
    by (simp add: run_defs fixture_defs)
  have 3: "fst (main three_pages empty_world) = Inr ()"
    by (simp add: run_defs fixture_defs)
  have 4: "read_json incomplete_world ''.cursor_state.json''
             = Inr (JObj [(''cursor'', JStr ''c1'')])"
    by (simp add: run_defs fixture_defs)
  have 5: "load_cursor_state incomplete_world
             = (JObj [(''cursor'', JStr ''c1'')], incomplete_world)"
    by (simp add: run_defs fixture_defs)
  have 6: "main three_pages incomplete_world
             = (Inl KeyError, print FetchingAll incomplete_world)"
    by (simp add: run_defs fixture_defs)
  have 7: "read_json listed_world ''.cursor_state.json'' = Inr (JList [JNum 1])"
    by (simp add: run_defs fixture_defs)
  have 8: "load_cursor_state listed_world = (JList [JNum 1], listed_world)"
    by (simp add: run_defs fixture_defs)
  have 9: "main three_pages listed_world = (Inl TypeError, print FetchingAll listed_world)"
    by (simp add: run_defs fixture_defs)
  from 1 2 3 4 5 6 7 8 9 show ?thesis by blast
qed

section \<open>The artifact\<close>




text \<open>
  \<open>recording_data.get("title", "Untitled")\<close> gives the default for an absent key only. A
  title that is JSON \<open>null\<close> is returned as \<open>None\<close>, and iterating over it raises a
  \<open>TypeError\<close>, after the directory was created and before anything is written.
\<close>

lemma null_title_raises:
  "rid rec_null_title = Some ''r9'' \<and>
   attrs rec_null_title ''title'' = Some JNull \<and>
   fst (save_recording_to_json three_pages rec_null_title ''recordings'' empty_world)
     = Inl TypeError \<and>
   listdir (snd (save_recording_to_json three_pages rec_null_title ''recordings'' empty_world))
     ''recordings'' = Some []"
proof -
  have a: "rid rec_null_title = Some ''r9''"
    by (simp add: rec_null_title_def)
  have b: "attrs rec_null_title ''title'' = Some JNull"
    by (simp add: rec_null_title_def)
  have c: "fst (save_recording_to_json three_pages rec_null_title ''recordings'' empty_world)
     = Inl TypeError"
    by (simp add: run_defs fixture_defs)
  have d: "listdir (snd (save_recording_to_json three_pages rec_null_title ''recordings''
                           empty_world)) ''recordings'' = Some []"
    by (simp add: run_defs fixture_defs)
  from a b c d show ?thesis by blast
qed

end
